theory Spec2Isabelle
  imports Complex_Main
begin

section \<open>Strings and JavaScript values\<close>

text \<open>
  Strings are \<^typ>\<open>string\<close>, read as ASCII text: \<open>toLowerCase\<close> maps \<open>A\<close>..\<open>Z\<close> to
  \<open>a\<close>..\<open>z\<close> and leaves every other character alone, the white space of a regular
  expression is the ASCII white space, and the line terminators are line feed and
  carriage return. An optional value (\<open>undefined\<close> in the source) is \<open>None\<close>.
\<close>

definition toLowerCaseChar :: "char \<Rightarrow> char" where
  "toLowerCaseChar c =
     (case map_of (zip ''ABCDEFGHIJKLMNOPQRSTUVWXYZ'' ''abcdefghijklmnopqrstuvwxyz'') c of
        Some l \<Rightarrow> l
      | None \<Rightarrow> c)"

definition toLowerCase :: "string \<Rightarrow> string" where
  "toLowerCase s = map toLowerCaseChar s"

fun startsWith :: "string \<Rightarrow> string \<Rightarrow> bool" where
  "startsWith s [] = True"
| "startsWith [] (w # ws) = False"
| "startsWith (c # cs) (w # ws) = (c = w \<and> startsWith cs ws)"

text \<open>\<open>s.includes(w)\<close>: \<open>w\<close> occurs in \<open>s\<close> at some position.\<close>

fun includes_str :: "string \<Rightarrow> string \<Rightarrow> bool" where
  "includes_str [] w = (w = [])"
| "includes_str (c # cs) w = (startsWith (c # cs) w \<or> includes_str cs w)"

text \<open>Truthiness of an optional string: \<open>undefined\<close> and the empty string are falsy.\<close>

definition truthy :: "string option \<Rightarrow> bool" where
  "truthy v = (case v of None \<Rightarrow> False | Some s \<Rightarrow> s \<noteq> [])"

text \<open>\<open>v || d\<close> on an optional string, and \<open>${v}\<close> inside a template literal.\<close>

definition orElse :: "string option \<Rightarrow> string \<Rightarrow> string" where
  "orElse v d = (case v of None \<Rightarrow> d | Some s \<Rightarrow> (if s = [] then d else s))"

definition template :: "string option \<Rightarrow> string" where
  "template v = (case v of None \<Rightarrow> ''undefined'' | Some s \<Rightarrow> s)"

text \<open>Decimal notation of a number, as a template literal prints it.\<close>

fun string_of_nat :: "nat \<Rightarrow> string" where
  "string_of_nat n =
     (if n < 10 then [''0123456789'' ! n]
      else string_of_nat (n div 10) @ [''0123456789'' ! (n mod 10)])"

declare string_of_nat.simps [simp del]

section \<open>Configuration (config.ts)\<close>

datatype AIProvider = Vertex | Gemini

definition providerName :: "AIProvider \<Rightarrow> string" where
  "providerName p = (case p of Vertex \<Rightarrow> ''vertex'' | Gemini \<Rightarrow> ''gemini'')"

text \<open>The process environment: a variable is unset (\<open>None\<close>) or holds a string.\<close>

type_synonym env = "string \<rightharpoonup> string"

text \<open>
  \<open>process.env.AI_PROVIDER?.toLowerCase() === "gemini" ? "gemini" : "vertex"\<close>.
  The function has no other statement: it writes nothing and raises nothing.
\<close>

definition getAIProvider :: "env \<Rightarrow> AIProvider" where
  "getAIProvider e =
     (if map_option toLowerCase (e ''AI_PROVIDER'') = Some ''gemini'' then Gemini else Vertex)"

text \<open>
  What \<open>validateConfig\<close> does to the process: it returns, or it writes one line to the
  error stream and calls \<open>process.exit\<close> with a code.
\<close>

datatype validation = Returned | Exited nat string

definition validateConfig :: "env \<Rightarrow> validation" where
  "validateConfig e =
     (let aiProvider = getAIProvider e in
      if aiProvider = Vertex \<and> \<not> truthy (e ''GOOGLE_CLOUD_PROJECT'') then
        Exited 1 ''Error: AI_PROVIDER is 'vertex' but GOOGLE_CLOUD_PROJECT environment variable is not set.''
      else if aiProvider = Gemini \<and> \<not> truthy (e ''GEMINI_API_KEY'') then
        Exited 1 ''Error: AI_PROVIDER is 'gemini' but GEMINI_API_KEY environment variable is not set.''
      else Returned)"

text \<open>
  The words of the specification: each provider has one mandatory credential, and it is
  absent when the variable is unset or empty (the source tests \<open>!process.env.X\<close>, and its
  message calls both cases "not set").
\<close>

definition mandatoryCredential :: "AIProvider \<Rightarrow> string" where
  "mandatoryCredential p =
     (case p of Vertex \<Rightarrow> ''GOOGLE_CLOUD_PROJECT'' | Gemini \<Rightarrow> ''GEMINI_API_KEY'')"

definition credentialAbsent :: "env \<Rightarrow> bool" where
  "credentialAbsent e =
     (e (mandatoryCredential (getAIProvider e)) = None \<or>
      e (mandatoryCredential (getAIProvider e)) = Some [])"

definition exitMessage :: "validation \<Rightarrow> string" where
  "exitMessage v = (case v of Returned \<Rightarrow> [] | Exited code msg \<Rightarrow> msg)"

section \<open>JavaScript numbers\<close>

text \<open>
  A number of the program is an IEEE 754 double: a finite value, an infinity or NaN.
  The two zeros are one value here (nothing below tells them apart). Arithmetic rounds
  the exact result to the nearest double, ties to the even mantissa.
\<close>

datatype number = Finite real | PosInfinity | NegInfinity | NaN

text \<open>The position of the leading bit of a positive integer: \<open>2^k \<le> n < 2^(k+1)\<close>.\<close>

function log2floor :: "int \<Rightarrow> int" where
  "log2floor n = (if n < 2 then 0 else 1 + log2floor (n div 2))"
  by pat_completeness auto
termination
  by (relation "measure nat") auto

declare log2floor.simps [simp del]

definition twoTo :: "int \<Rightarrow> real" where
  "twoTo k = (if 0 \<le> k then 2 ^ nat k else 1 / 2 ^ nat (- k))"

text \<open>The binary exponent of a positive real \<open>x\<close>: the \<open>e\<close> with \<open>2^e \<le> x < 2^(e+1)\<close>.\<close>

definition exponentOf :: "real \<Rightarrow> int" where
  "exponentOf x =
     (if 1 \<le> x then log2floor \<lfloor>x\<rfloor>
      else - (1 + log2floor (\<lceil>1 / x\<rceil> - 1)))"

definition roundHalfEven :: "real \<Rightarrow> int" where
  "roundHalfEven q =
     (let f = \<lfloor>q\<rfloor>; d = q - of_int f
      in if d < 1 / 2 then f else if 1 / 2 < d then f + 1 else if even f then f else f + 1)"

text \<open>
  Rounding a positive real: 53 significant bits at its exponent, the spacing of the
  subnormal numbers below \<open>2^-1022\<close>, and infinity when the exponent passes 1023 (the
  real is \<open>2^1024\<close> or more, or its mantissa rounds up to \<open>2^53\<close> at the exponent 1023).
\<close>

definition roundPositive :: "real \<Rightarrow> number" where
  "roundPositive x =
     (let e = max (exponentOf x) (- 1022);
          ulp = twoTo (e - 52);
          n = roundHalfEven (x / ulp)
      in if 1024 \<le> e \<or> (e = 1023 \<and> 2 ^ 53 \<le> n) then PosInfinity
         else Finite (of_int n * ulp))"

definition negate :: "number \<Rightarrow> number" where
  "negate v =
     (case v of Finite r \<Rightarrow> Finite (- r) | PosInfinity \<Rightarrow> NegInfinity
      | NegInfinity \<Rightarrow> PosInfinity | NaN \<Rightarrow> NaN)"

definition toDouble :: "real \<Rightarrow> number" where
  "toDouble x =
     (if x = 0 then Finite 0
      else if x < 0 then negate (roundPositive (- x))
      else roundPositive x)"

definition signOf :: "number \<Rightarrow> int" where
  "signOf v =
     (case v of Finite r \<Rightarrow> (if r < 0 then - 1 else if r = 0 then 0 else 1)
      | PosInfinity \<Rightarrow> 1 | NegInfinity \<Rightarrow> - 1 | NaN \<Rightarrow> 0)"

text \<open>\<open>a * b\<close> and \<open>a + b\<close>.\<close>

fun numberTimes :: "number \<Rightarrow> number \<Rightarrow> number" where
  "numberTimes NaN b = NaN"
| "numberTimes a NaN = NaN"
| "numberTimes (Finite a) (Finite b) = toDouble (a * b)"
| "numberTimes a b =
     (if signOf a * signOf b = 0 then NaN
      else if 0 < signOf a * signOf b then PosInfinity
      else NegInfinity)"

fun numberPlus :: "number \<Rightarrow> number \<Rightarrow> number" where
  "numberPlus NaN b = NaN"
| "numberPlus a NaN = NaN"
| "numberPlus (Finite a) (Finite b) = toDouble (a + b)"
| "numberPlus PosInfinity NegInfinity = NaN"
| "numberPlus NegInfinity PosInfinity = NaN"
| "numberPlus PosInfinity b = PosInfinity"
| "numberPlus a PosInfinity = PosInfinity"
| "numberPlus NegInfinity b = NegInfinity"
| "numberPlus a NegInfinity = NegInfinity"

text \<open>
  \<open>Math.pow(2, attempt)\<close> for the loop counter, a non-negative integer: the power of two
  is a double up to the exponent 1023 and overflows after it.
\<close>

definition pow2 :: "nat \<Rightarrow> number" where
  "pow2 attempt = (if attempt \<le> 1023 then Finite (2 ^ attempt) else PosInfinity)"

section \<open>Tools and request preparation (tool_definition.ts, vertex_ai_client.ts)\<close>

text \<open>
  A tool declaration is an object of the SDK. The code looks at two of its properties:
  \<open>googleSearchRetrieval\<close> (tested for a truthy value; the SDK puts an object there) and
  \<open>googleSearch\<close> (tested with \<open>in\<close>). Function declarations are kept as a list of names.
\<close>

record tool =
  googleSearchRetrieval :: bool
  googleSearch :: bool
  functionDeclarations :: "string list"

text \<open>\<open>getToolsForApi\<close>: \<open>useWebSearch ? [{ googleSearch: {} }] : undefined\<close>.\<close>

definition getToolsForApi :: "bool \<Rightarrow> bool \<Rightarrow> tool list option" where
  "getToolsForApi enableFunctionCalling useWebSearch =
     (if useWebSearch
      then Some [\<lparr>googleSearchRetrieval = False, googleSearch = True, functionDeclarations = []\<rparr>]
      else None)"

text \<open>\<open>tools?.some(tool => tool.googleSearchRetrieval)\<close>; \<open>undefined\<close> is falsy.\<close>

definition isGroundingRequested :: "tool list option \<Rightarrow> bool" where
  "isGroundingRequested tools =
     (case tools of None \<Rightarrow> False | Some ts \<Rightarrow> list_ex googleSearchRetrieval ts)"

text \<open>
  The tools of the Vertex request. An array, even an empty one, is truthy, so the first
  branch is taken for every tool list on the "gemini" provider.
\<close>

definition filteredToolsForVertex :: "AIProvider \<Rightarrow> tool list option \<Rightarrow> tool list option" where
  "filteredToolsForVertex p tools =
     (case tools of
        None \<Rightarrow> None
      | Some ts \<Rightarrow>
          if p = Gemini then None
          else if p = Vertex \<and> isGroundingRequested tools \<and> length ts > 1
          then Some (filter googleSearchRetrieval ts)
          else tools)"

text \<open>
  The entry point of the SDK that serves the call: the preview surface of the Vertex
  client, its stable surface, or the model of the Gemini client.
\<close>

datatype model_instance = PreviewGenerativeModel | GenerativeModel | GeminiGenerativeModel

definition modelInstance :: "AIProvider \<Rightarrow> tool list option \<Rightarrow> model_instance" where
  "modelInstance p tools =
     (if p = Vertex
      then (if isGroundingRequested tools then PreviewGenerativeModel else GenerativeModel)
      else GeminiGenerativeModel)"

text \<open>
  The tools that reach the provider: the field \<open>tools\<close> of \<open>vertexRequest\<close>; the Gemini
  call passes no tools (the line is commented out in the source).
\<close>

definition requestTools :: "AIProvider \<Rightarrow> tool list option \<Rightarrow> tool list option" where
  "requestTools p tools = (if p = Vertex then filteredToolsForVertex p tools else None)"

text \<open>
  The older client, \<open>callVertexAIWithOptionalFunctionCalling\<close>:
  \<open>tools && tools.some(tool => 'googleSearch' in tool)\<close>, and the request carries
  \<open>tools\<close> as given.
\<close>

definition isGrounding :: "tool list option \<Rightarrow> bool" where
  "isGrounding tools = (case tools of None \<Rightarrow> False | Some ts \<Rightarrow> list_ex googleSearch ts)"

definition generativeModel :: "tool list option \<Rightarrow> model_instance" where
  "generativeModel tools = (if isGrounding tools then PreviewGenerativeModel else GenerativeModel)"

section \<open>The provider SDK as a stub\<close>

text \<open>
  A value raised by the SDK or by the client: an object with an optional \<open>message\<close>, an
  optional \<open>status\<close>, and the text \<open>String(error)\<close> gives. Thrown values are objects,
  hence truthy.
\<close>

datatype thrown = Thrown (message: "string option") (status: "string option") (asString: string)

text \<open>\<open>new Error(msg)\<close>.\<close>

definition newError :: "string \<Rightarrow> thrown" where
  "newError msg = Thrown (Some msg) None (if msg = [] then ''Error'' else ''Error: '' @ msg)"

text \<open>
  A response object (a chunk of a stream is one too). \<open>partText\<close> is
  \<open>candidates?.[0]?.content?.parts?.[0]?.text\<close> when that is a string; \<open>textMethod\<close> is what
  calling \<open>text()\<close> does (it raises or returns a string); \<open>blockReason\<close> is
  \<open>promptFeedback?.blockReason\<close>; \<open>finishReason\<close> is \<open>candidates?.[0]?.finishReason\<close>.
  Safety ratings are only logged and are left out.
\<close>

datatype response = Response
  (partText: "string option")
  (textMethod: "thrown + string")
  (blockReason: "string option")
  (finishReason: "string option")

text \<open>
  What \<open>generateContentStream\<close> resolves to: the chunks the stream yields, the error its
  iteration raises after them (if any), and what awaiting \<open>response\<close> gives.
\<close>

datatype stream_result = StreamResult
  (chunks: "response list")
  (streamError: "thrown option")
  (aggregated: "thrown + response option")

text \<open>
  The stub: what the provider does at its n-th call (the attempt index), given the entry
  point and the tools of the request. \<open>Inl\<close> is a rejected call.
\<close>

record sdk =
  generateContent :: "model_instance \<Rightarrow> tool list option \<Rightarrow> nat \<Rightarrow> thrown + response"
  generateContentStream :: "model_instance \<Rightarrow> tool list option \<Rightarrow> nat \<Rightarrow> thrown + stream_result"

text \<open>
  The settings \<open>callGenerativeAI\<close> branches on. Model id, temperature and token limit
  are copied into the request and the log and decide nothing.
\<close>

record ai_config =
  provider :: AIProvider
  useStreaming :: bool
  maxRetries :: nat
  retryDelayMs :: nat

section \<open>One attempt of callGenerativeAI (the body of the try block)\<close>

text \<open>\<open>e.message?.toLowerCase().includes(w)\<close>.\<close>

definition messageIncludes :: "thrown \<Rightarrow> string \<Rightarrow> bool" where
  "messageIncludes e w =
     (case message e of None \<Rightarrow> False | Some m \<Rightarrow> includes_str (toLowerCase m) w)"

text \<open>
  \<open>blockReason && blockReason !== 'BLOCK_REASON_UNSPECIFIED' && blockReason !== 'OTHER'\<close>.
\<close>

definition vertexBlocked :: "string option \<Rightarrow> bool" where
  "vertexBlocked r =
     (truthy r \<and> r \<noteq> Some ''BLOCK_REASON_UNSPECIFIED'' \<and> r \<noteq> Some ''OTHER'')"

text \<open>The loop over a Vertex stream: a chunk without a text part adds nothing.\<close>

fun accumulateVertex :: "string \<Rightarrow> response list \<Rightarrow> string" where
  "accumulateVertex accumulatedText [] = accumulatedText"
| "accumulateVertex accumulatedText (item # items) =
     (case partText item of
        Some textPart \<Rightarrow> accumulateVertex (accumulatedText @ textPart) items
      | None \<Rightarrow> accumulateVertex accumulatedText items)"

text \<open>
  The loop over a Gemini stream: a chunk whose \<open>text()\<close> raises is skipped, unless the
  message mentions safety, which ends the attempt.
\<close>

fun accumulateGemini :: "string \<Rightarrow> response list \<Rightarrow> thrown + string" where
  "accumulateGemini accumulatedText [] = Inr accumulatedText"
| "accumulateGemini accumulatedText (chunk # rest) =
     (case textMethod chunk of
        Inr t \<Rightarrow> accumulateGemini (accumulatedText @ t) rest
      | Inl e \<Rightarrow>
          if messageIncludes e ''safety''
          then Inl (newError (''Gemini Content generation blocked during stream. Reason: '' @
                      template (message e)))
          else accumulateGemini accumulatedText rest)"

text \<open>
  After the stream: if nothing was accumulated and there is an aggregated response, one
  extraction from it; then the empty check.
\<close>

definition finishStream :: "AIProvider \<Rightarrow> string \<Rightarrow> response option \<Rightarrow> thrown + string" where
  "finishStream p accumulatedText finalAggregatedResponse =
     (let responseText =
        (if accumulatedText = [] then
           (case finalAggregatedResponse of
              None \<Rightarrow> accumulatedText
            | Some r \<Rightarrow>
                if p = Vertex
                then (case partText r of Some t \<Rightarrow> t | None \<Rightarrow> accumulatedText)
                else (case textMethod r of Inr t \<Rightarrow> t | Inl e \<Rightarrow> accumulatedText))
         else accumulatedText)
      in if responseText = []
         then Inl (newError (''Received empty or non-text response from '' @ providerName p @
                     '' AI stream.''))
         else Inr responseText)"

definition streamVertex :: "thrown + stream_result \<Rightarrow> thrown + string" where
  "streamVertex call =
     (case call of
        Inl e \<Rightarrow> Inl e
      | Inr streamResult \<Rightarrow>
          let accumulatedText = accumulateVertex [] (chunks streamResult) in
          (case streamError streamResult of
             Some e \<Rightarrow> Inl e
           | None \<Rightarrow>
               (case aggregated streamResult of
                  Inl e \<Rightarrow> Inl e
                | Inr finalAggregatedResponse \<Rightarrow>
                    let blockReasonVertex =
                      (case finalAggregatedResponse of None \<Rightarrow> None | Some r \<Rightarrow> blockReason r)
                    in if vertexBlocked blockReasonVertex
                       then Inl (newError (''Vertex Content generation blocked. Reason: '' @
                                   template blockReasonVertex))
                       else finishStream Vertex accumulatedText finalAggregatedResponse)))"

definition streamGemini :: "thrown + stream_result \<Rightarrow> thrown + string" where
  "streamGemini call =
     (case call of
        Inl e \<Rightarrow> Inl e
      | Inr streamResult \<Rightarrow>
          (case accumulateGemini [] (chunks streamResult) of
             Inl e \<Rightarrow> Inl e
           | Inr accumulatedText \<Rightarrow>
               (case streamError streamResult of
                  Some e \<Rightarrow> Inl e
                | None \<Rightarrow>
                    (case aggregated streamResult of
                       Inl e \<Rightarrow>
                         if messageIncludes e ''safety''
                         then Inl (newError
                                (''Gemini Content generation blocked aggregating response. Reason: '' @
                                 template (message e)))
                         else Inl e
                     | Inr finalAggregatedResponse \<Rightarrow>
                         let blockReasonGemini =
                               (case finalAggregatedResponse of None \<Rightarrow> None
                                | Some r \<Rightarrow> blockReason r);
                             finishReasonGemini =
                               (case finalAggregatedResponse of None \<Rightarrow> None
                                | Some r \<Rightarrow> finishReason r)
                         in if truthy blockReasonGemini
                            then Inl (newError
                                   (''Gemini Content generation blocked. Aggregated Reason: '' @
                                    template blockReasonGemini))
                            else if finishReasonGemini = Some ''SAFETY''
                            then Inl (newError
                                   ''Gemini Content generation blocked. Aggregated Finish Reason: SAFETY'')
                            else finishStream Gemini accumulatedText finalAggregatedResponse))))"

text \<open>The check that ends the non-streaming branch.\<close>

definition extractText :: "AIProvider \<Rightarrow> string option \<Rightarrow> thrown + string" where
  "extractText p responseText =
     (case responseText of
        None \<Rightarrow> Inl (newError (''Failed to extract valid text response from '' @ providerName p @
                       '' AI (non-streaming).''))
      | Some t \<Rightarrow>
          if t = []
          then Inl (newError (''Failed to extract valid text response from '' @ providerName p @
                      '' AI (non-streaming).''))
          else Inr t)"

definition nonStreamVertex :: "thrown + response \<Rightarrow> thrown + string" where
  "nonStreamVertex call =
     (case call of
        Inl e \<Rightarrow> Inl e
      | Inr result \<Rightarrow>
          let responseText = partText result;
              blockReasonVertex = blockReason result
          in if vertexBlocked blockReasonVertex
             then Inl (newError (''Vertex Content generation blocked. Reason: '' @
                         template blockReasonVertex))
             else extractText Vertex responseText)"

definition nonStreamGemini :: "thrown + response \<Rightarrow> thrown + string" where
  "nonStreamGemini call =
     (case call of
        Inl e \<Rightarrow>
          if messageIncludes e ''safety'' \<or> messageIncludes e ''prompt blocked'' \<or>
             status e = Some ''BLOCKED''
          then Inl (newError (''Gemini Content generation blocked. Call Reason: '' @
                      template (message e)))
          else Inl e
      | Inr result \<Rightarrow>
          let responseText = (case textMethod result of Inr t \<Rightarrow> Some t | Inl e \<Rightarrow> None);
              blockReasonGemini = blockReason result;
              finishReasonGemini = finishReason result
          in if truthy blockReasonGemini
             then Inl (newError (''Gemini Content generation blocked. Response Reason: '' @
                         template blockReasonGemini))
             else if finishReasonGemini = Some ''SAFETY''
             then Inl (newError ''Gemini Content generation blocked. Response Finish Reason: SAFETY'')
             else extractText Gemini responseText)"

text \<open>
  The attempt with index \<open>attempt\<close>: \<open>Inl\<close> is the value the try block raises, \<open>Inr\<close> the
  text it returns. The guards on an uninitialised model instance cannot fire (the
  instance of the selected provider is always created before the loop), and the final
  \<open>typeof responseText === 'string'\<close> test holds whenever it is reached.
\<close>

definition runAttempt :: "ai_config \<Rightarrow> tool list option \<Rightarrow> sdk \<Rightarrow> nat \<Rightarrow> thrown + string" where
  "runAttempt cfg tools s attempt =
     (let m = modelInstance (provider cfg) tools;
          reqTools = requestTools (provider cfg) tools
      in if useStreaming cfg then
           (if provider cfg = Vertex
            then streamVertex (generateContentStream s m reqTools attempt)
            else streamGemini (generateContentStream s m reqTools attempt))
         else
           (if provider cfg = Vertex
            then nonStreamVertex (generateContent s m reqTools attempt)
            else nonStreamGemini (generateContent s m reqTools attempt)))"

section \<open>The catch block of callGenerativeAI\<close>

text \<open>\<open>String(error.message || error || '').toLowerCase()\<close>.\<close>

definition errorMessageString :: "thrown \<Rightarrow> string" where
  "errorMessageString error =
     toLowerCase (if truthy (message error) then template (message error) else asString error)"

definition isBlockingError :: "string \<Rightarrow> bool" where
  "isBlockingError msg =
     (includes_str msg ''blocked'' \<or> includes_str msg ''safety'')"

text \<open>The nine substrings that mark a transient fault.\<close>

definition transientSignature :: "string \<Rightarrow> bool" where
  "transientSignature msg =
     (includes_str msg ''429'' \<or>
      includes_str msg ''500'' \<or>
      includes_str msg ''503'' \<or>
      includes_str msg ''deadline_exceeded'' \<or>
      includes_str msg ''internal'' \<or>
      includes_str msg ''network error'' \<or>
      includes_str msg ''socket hang up'' \<or>
      includes_str msg ''unavailable'' \<or>
      includes_str msg ''could not connect'')"

definition isRetryable :: "string \<Rightarrow> bool" where
  "isRetryable msg =
     (\<not> isBlockingError msg \<and> transientSignature msg)"

subsection \<open>The regular expressions of the final message\<close>

definition isWhiteSpace :: "char \<Rightarrow> bool" where
  "isWhiteSpace c = (c \<in> set [CHR 0x09, CHR 0x0A, CHR 0x0B, CHR 0x0C, CHR 0x0D, CHR '' ''])"

definition isLineTerminator :: "char \<Rightarrow> bool" where
  "isLineTerminator c = (c = CHR 0x0A \<or> c = CHR 0x0D)"

definition notLineTerminator :: "char \<Rightarrow> bool" where
  "notLineTerminator c = (c \<noteq> CHR 0x0A \<and> c \<noteq> CHR 0x0D)"

definition isWordChar :: "char \<Rightarrow> bool" where
  "isWordChar c =
     (c \<in> set ''abcdefghijklmnopqrstuvwxyzABCDEFGHIJKLMNOPQRSTUVWXYZ0123456789_'')"

text \<open>A literal given in lower case matches at the start of \<open>s\<close>, ignoring case.\<close>

fun startsWithCI :: "string \<Rightarrow> string \<Rightarrow> bool" where
  "startsWithCI s [] = True"
| "startsWithCI [] (w # ws) = False"
| "startsWithCI (c # cs) (w # ws) = (toLowerCaseChar c = w \<and> startsWithCI cs ws)"

text \<open>
  \<open>/(Reason|Finish Reason):\s*(.*)/i\<close>: the second group of the leftmost match. After
  the colon nothing can fail, so the greedy \<open>\s*\<close> takes all the white space and the
  greedy \<open>.*\<close> the rest of the line.
\<close>

definition reasonGroup :: "string \<Rightarrow> string" where
  "reasonGroup rest = takeWhile notLineTerminator (dropWhile isWhiteSpace rest)"

fun matchReason :: "string \<Rightarrow> string option" where
  "matchReason [] = None"
| "matchReason (c # cs) =
     (if startsWithCI (c # cs) ''reason:'' then Some (reasonGroup (drop 7 (c # cs)))
      else if startsWithCI (c # cs) ''finish reason:'' then Some (reasonGroup (drop 14 (c # cs)))
      else matchReason cs)"

text \<open>
  A backtracking matcher in continuation style, for a pattern that is only tested:
  a literal, a starred character class, and the search for a match at any position.
\<close>

definition lit :: "string \<Rightarrow> (string \<Rightarrow> bool) \<Rightarrow> string \<Rightarrow> bool" where
  "lit w k s = (startsWithCI s w \<and> k (drop (length w) s))"

fun star :: "(char \<Rightarrow> bool) \<Rightarrow> (string \<Rightarrow> bool) \<Rightarrow> string \<Rightarrow> bool" where
  "star P k [] = k []"
| "star P k (c # cs) = ((P c \<and> star P k cs) \<or> k (c # cs))"

fun search :: "(string \<Rightarrow> bool) \<Rightarrow> string \<Rightarrow> bool" where
  "search r [] = r []"
| "search r (c # cs) = (r (c # cs) \<or> search r cs)"

text \<open>\<open>/prompt.*blocked.*\s*safety.*?setting/i\<close>.\<close>

definition matchPromptBlocked :: "string \<Rightarrow> bool" where
  "matchPromptBlocked s =
     search
       (lit ''prompt'' (star notLineTerminator (lit ''blocked'' (star notLineTerminator
          (star isWhiteSpace (lit ''safety'' (star notLineTerminator
             (lit ''setting'' (\<lambda>rest. True))))))))) s"

text \<open>
  \<open>/\b(429|500|503|internal|unavailable)\b/\<close>: the token of the leftmost match. Every
  token starts and ends with a word character, so the first \<open>\b\<close> asks that the
  character before is not one, and the second that the character after is not one.
\<close>

definition boundaryAfter :: "string \<Rightarrow> bool" where
  "boundaryAfter rest = (case rest of [] \<Rightarrow> True | c # cs \<Rightarrow> \<not> isWordChar c)"

fun firstToken :: "string list \<Rightarrow> string \<Rightarrow> string option" where
  "firstToken [] s = None"
| "firstToken (t # ts) s =
     (if startsWith s t \<and> boundaryAfter (drop (length t) s) then Some t else firstToken ts s)"

fun matchStatus :: "string list \<Rightarrow> bool \<Rightarrow> string \<Rightarrow> string option" where
  "matchStatus tokens prevIsWord [] = None"
| "matchStatus tokens prevIsWord (c # cs) =
     (case (if prevIsWord then None else firstToken tokens (c # cs)) of
        Some t \<Rightarrow> Some t
      | None \<Rightarrow> matchStatus tokens (isWordChar c) cs)"

definition statusTokens :: "string list" where
  "statusTokens = [''429'', ''500'', ''503'', ''internal'', ''unavailable'']"

subsection \<open>The final message\<close>

definition blockedMessage :: "AIProvider \<Rightarrow> thrown \<Rightarrow> string" where
  "blockedMessage p error =
     (let match = (case message error of None \<Rightarrow> None | Some m \<Rightarrow> matchReason m);
          geminiBlockMatch =
            (case message error of None \<Rightarrow> False | Some m \<Rightarrow> matchPromptBlocked m)
      in if truthy match
         then ''Content generation blocked by '' @ providerName p @ '' safety filters. Reason: '' @
              template match
         else if geminiBlockMatch
         then ''Content generation blocked by Gemini safety filters.''
         else ''Content generation blocked by '' @ providerName p @ '' safety filters. ('' @
              orElse (message error) ''No specific reason found'' @ '')'')"

definition finalErrorMessage :: "AIProvider \<Rightarrow> thrown \<Rightarrow> string" where
  "finalErrorMessage p error =
     (let ems = errorMessageString error;
          baseMessage = providerName p @ '' AI API error: '' @
                        orElse (message error) ''Unknown error''
      in if isBlockingError ems then blockedMessage p error
         else (case matchStatus statusTokens False ems of
                 Some t \<Rightarrow> baseMessage @ '' (Status: '' @ t @ '')''
               | None \<Rightarrow>
                   if includes_str ems ''deadline_exceeded''
                   then providerName p @ '' AI API error: Operation timed out (deadline_exceeded).''
                   else baseMessage))"

section \<open>The retry loop of callGenerativeAI\<close>

datatype ErrorCode = InternalError

datatype mcp_error = McpError ErrorCode string

text \<open>
  What a call leaves behind: the text it returns or the error it raises, the durations
  passed to \<open>sleep\<close> in order (milliseconds), and the number of attempts it made.
\<close>

record call_outcome =
  outcome :: "mcp_error + string"
  sleeps :: "number list"
  attempts :: nat

text \<open>
  The delay before the retry that follows the attempt with index \<open>attempt\<close>:
  \<open>retryDelayMs * Math.pow(2, attempt) + Math.random() * 500\<close>, every operation in
  double precision. The configured delay is the double that holds the parsed integer.
  \<open>random\<close> gives the values of \<open>Math.random()\<close>; the loop draws one per retry, so
  the draw made after attempt \<open>n\<close> is the \<open>n\<close>-th.
\<close>

definition retryDelay :: "ai_config \<Rightarrow> (nat \<Rightarrow> real) \<Rightarrow> nat \<Rightarrow> number" where
  "retryDelay cfg random attempt =
     (let jitter = numberTimes (Finite (random attempt)) (Finite 500)
      in numberPlus (numberTimes (toDouble (real (retryDelayMs cfg))) (pow2 attempt)) jitter)"

function retryLoop ::
  "ai_config \<Rightarrow> (nat \<Rightarrow> thrown + string) \<Rightarrow> (nat \<Rightarrow> real) \<Rightarrow> nat \<Rightarrow> number list \<Rightarrow> call_outcome"
where
  "retryLoop cfg body random attempt slept =
     (if attempt \<le> maxRetries cfg then
        (case body attempt of
           Inr responseText \<Rightarrow>
             \<lparr>outcome = Inr responseText, sleeps = slept, attempts = attempt + 1\<rparr>
         | Inl error \<Rightarrow>
             if isRetryable (errorMessageString error) \<and> attempt < maxRetries cfg
             then retryLoop cfg body random (attempt + 1)
                    (slept @ [retryDelay cfg random attempt])
             else \<lparr>outcome = Inl (McpError InternalError (finalErrorMessage (provider cfg) error)),
                   sleeps = slept, attempts = attempt + 1\<rparr>)
      else \<lparr>outcome = Inl (McpError InternalError
                (''Max retries ('' @ string_of_nat (maxRetries cfg + 1) @ '') reached for '' @
                 providerName (provider cfg) @ '' LLM call without success.'')),
            sleeps = slept, attempts = attempt\<rparr>)"
  by pat_completeness auto
termination
  by (relation "measure (\<lambda>(cfg, body, random, attempt, slept). maxRetries cfg + 1 - attempt)")
     auto

declare retryLoop.simps [simp del]

definition callGenerativeAI ::
  "ai_config \<Rightarrow> tool list option \<Rightarrow> sdk \<Rightarrow> (nat \<Rightarrow> real) \<Rightarrow> call_outcome" where
  "callGenerativeAI cfg tools s random = retryLoop cfg (runAttempt cfg tools s) random 0 []"

section \<open>The older client: callVertexAIWithOptionalFunctionCalling\<close>

text \<open>
  The function takes the settings as arguments (tools, streaming flag, retry count and
  base delay), always talks to Vertex, and passes \<open>tools\<close> on unchanged. In its
  streaming branch the extraction from the aggregated response comes before the block
  check.
\<close>

definition runAttempt_vertex :: "bool \<Rightarrow> tool list option \<Rightarrow> sdk \<Rightarrow> nat \<Rightarrow> thrown + string" where
  "runAttempt_vertex streaming tools s attempt =
     (if streaming then
        (case generateContentStream s (generativeModel tools) tools attempt of
           Inl e \<Rightarrow> Inl e
         | Inr streamResult \<Rightarrow>
             let accumulatedText = accumulateVertex [] (chunks streamResult) in
             (case streamError streamResult of
                Some e \<Rightarrow> Inl e
              | None \<Rightarrow>
                  (case aggregated streamResult of
                     Inl e \<Rightarrow> Inl e
                   | Inr finalAggregatedResponse \<Rightarrow>
                       let responseText =
                             (if accumulatedText = [] then
                                (case finalAggregatedResponse of
                                   None \<Rightarrow> accumulatedText
                                 | Some r \<Rightarrow>
                                     (case partText r of Some t \<Rightarrow> t | None \<Rightarrow> accumulatedText))
                              else accumulatedText);
                           blockReasonV =
                             (case finalAggregatedResponse of None \<Rightarrow> None
                              | Some r \<Rightarrow> blockReason r)
                       in if vertexBlocked blockReasonV
                          then Inl (newError (''Content generation blocked. Reason: '' @
                                      template blockReasonV))
                          else if responseText = []
                          then Inl (newError
                                 ''Received empty or non-text response from Vertex AI stream.'')
                          else Inr responseText)))
      else
        (case generateContent s (generativeModel tools) tools attempt of
           Inl e \<Rightarrow> Inl e
         | Inr result \<Rightarrow>
             if vertexBlocked (blockReason result)
             then Inl (newError (''Content generation blocked. Reason: '' @
                         template (blockReason result)))
             else (case partText result of
                     None \<Rightarrow> Inl (newError
                       ''Failed to extract valid text response from Vertex AI (non-streaming).'')
                   | Some t \<Rightarrow>
                       if t = []
                       then Inl (newError
                         ''Failed to extract valid text response from Vertex AI (non-streaming).'')
                       else Inr t)))"

text \<open>\<open>String(error.message || '').toLowerCase()\<close> and the two tests on it.\<close>

definition errorMessageString_vertex :: "thrown \<Rightarrow> string" where
  "errorMessageString_vertex error = toLowerCase (orElse (message error) [])"

definition isBlockingError_vertex :: "string \<Rightarrow> bool" where
  "isBlockingError_vertex msg = includes_str msg ''content generation blocked''"

definition isRetryable_vertex :: "string \<Rightarrow> bool" where
  "isRetryable_vertex msg =
     (\<not> isBlockingError_vertex msg \<and>
      (includes_str msg ''429'' \<or> includes_str msg ''500'' \<or> includes_str msg ''503''))"

text \<open>The message of the error it raises; the pattern is \<open>/\b(429|500|503)\b/\<close>.\<close>

definition errorMessage_vertex :: "thrown \<Rightarrow> string" where
  "errorMessage_vertex error =
     ''Vertex AI API error: '' @ orElse (message error) ''Unknown error'' @
     (case matchStatus [''429'', ''500'', ''503''] False (errorMessageString_vertex error) of
        Some t \<Rightarrow> '' (Status Code: '' @ t @ '')''
      | None \<Rightarrow> [])"

text \<open>\<open>retryDelayMs * Math.pow(2, attempt)\<close>, in double precision and without jitter.\<close>

definition retryDelay_vertex :: "nat \<Rightarrow> nat \<Rightarrow> number" where
  "retryDelay_vertex delayMs attempt = numberTimes (toDouble (real delayMs)) (pow2 attempt)"

function retryLoop_vertex ::
  "nat \<Rightarrow> nat \<Rightarrow> (nat \<Rightarrow> thrown + string) \<Rightarrow> nat \<Rightarrow> number list \<Rightarrow> call_outcome"
where
  "retryLoop_vertex retries delayMs body attempt slept =
     (if attempt \<le> retries then
        (case body attempt of
           Inr responseText \<Rightarrow>
             \<lparr>outcome = Inr responseText, sleeps = slept, attempts = attempt + 1\<rparr>
         | Inl error \<Rightarrow>
             if isRetryable_vertex (errorMessageString_vertex error) \<and> attempt < retries
             then retryLoop_vertex retries delayMs body (attempt + 1)
                    (slept @ [retryDelay_vertex delayMs attempt])
             else \<lparr>outcome = Inl (McpError InternalError (errorMessage_vertex error)),
                   sleeps = slept, attempts = attempt + 1\<rparr>)
      else \<lparr>outcome = Inl (McpError InternalError
                (''Max retries ('' @ string_of_nat (retries + 1) @
                 '') reached for LLM call without success.'')),
            sleeps = slept, attempts = attempt\<rparr>)"
  by pat_completeness auto
termination
  by (relation "measure (\<lambda>(retries, delayMs, body, attempt, slept).
        retries + 1 - attempt)") auto

declare retryLoop_vertex.simps [simp del]

definition callVertexAIWithOptionalFunctionCalling ::
  "tool list option \<Rightarrow> bool \<Rightarrow> nat \<Rightarrow> nat \<Rightarrow> sdk \<Rightarrow> call_outcome" where
  "callVertexAIWithOptionalFunctionCalling tools streaming retries delayMs s =
     retryLoop_vertex retries delayMs (runAttempt_vertex streaming tools s) 0 []"

section \<open>Stubs for the examples\<close>

text \<open>A provider that rejects every call with \<open>new Error(msg)\<close>.\<close>

definition failingSdk :: "string \<Rightarrow> sdk" where
  "failingSdk msg =
     \<lparr>generateContent = (\<lambda>m tl n. Inl (newError msg)),
      generateContentStream = (\<lambda>m tl n. Inl (newError msg))\<rparr>"

text \<open>
  A provider that rejects its first \<open>k\<close> calls with \<open>new Error(msg)\<close> and then answers
  with the response \<open>r\<close>, or with the stream of chunks \<open>cs\<close> whose aggregate is \<open>r\<close>.
\<close>

definition flakySdk :: "nat \<Rightarrow> string \<Rightarrow> response list \<Rightarrow> response \<Rightarrow> sdk" where
  "flakySdk k msg cs r =
     \<lparr>generateContent = (\<lambda>m tl n. if n < k then Inl (newError msg) else Inr r),
      generateContentStream =
        (\<lambda>m tl n. if n < k then Inl (newError msg)
                  else Inr (StreamResult cs None (Inr (Some r))))\<rparr>"

text \<open>A response, or a chunk, that carries the text \<open>t\<close> and no block signal.\<close>

definition textResponse :: "string \<Rightarrow> response" where
  "textResponse t = Response (Some t) (Inr t) None None"

definition exampleConfig :: "AIProvider \<Rightarrow> bool \<Rightarrow> ai_config" where
  "exampleConfig p streaming =
     \<lparr>provider = p, useStreaming = streaming, maxRetries = 3, retryDelayMs = 1000\<rparr>"

text \<open>
  The block test that the branch of each provider applies to a response (the aggregated
  one in streaming mode): the Vertex branch looks at the block reason and exempts two
  values, the Gemini branch takes any block reason and the finish reason SAFETY.
\<close>

definition blockSignal :: "AIProvider \<Rightarrow> response \<Rightarrow> bool" where
  "blockSignal p r =
     (case p of
        Vertex \<Rightarrow> vertexBlocked (blockReason r)
      | Gemini \<Rightarrow> truthy (blockReason r) \<or> finishReason r = Some ''SAFETY'')"

text \<open>A provider that answers with the name of the entry point it was called on.\<close>

definition entryPointSdk :: sdk where
  "entryPointSdk =
     \<lparr>generateContent =
        (\<lambda>m tl n. Inr (textResponse
           (case m of PreviewGenerativeModel \<Rightarrow> ''preview''
            | GenerativeModel \<Rightarrow> ''default''
            | GeminiGenerativeModel \<Rightarrow> ''gemini''))),
      generateContentStream = (\<lambda>m tl n. Inl (newError ''not streaming''))\<rparr>"

text \<open>
  A provider that streams the chunks \<open>cs\<close> and then gives \<open>agg\<close> as the aggregated
  response (or none), and that answers a request without streaming with \<open>r\<close>.
\<close>

definition answeringSdk :: "response list \<Rightarrow> response option \<Rightarrow> response \<Rightarrow> sdk" where
  "answeringSdk cs agg r =
     \<lparr>generateContent = (\<lambda>m tl n. Inr r),
      generateContentStream = (\<lambda>m tl n. Inr (StreamResult cs None (Inr agg)))\<rparr>"

section \<open>Theorems on the configuration\<close>

lemma toLowerCaseChar_cases:
  "toLowerCaseChar c = CHR ''g'' \<longleftrightarrow> c = CHR ''g'' \<or> c = CHR ''G''"
  "toLowerCaseChar c = CHR ''e'' \<longleftrightarrow> c = CHR ''e'' \<or> c = CHR ''E''"
  "toLowerCaseChar c = CHR ''m'' \<longleftrightarrow> c = CHR ''m'' \<or> c = CHR ''M''"
  "toLowerCaseChar c = CHR ''i'' \<longleftrightarrow> c = CHR ''i'' \<or> c = CHR ''I''"
  "toLowerCaseChar c = CHR ''n'' \<longleftrightarrow> c = CHR ''n'' \<or> c = CHR ''N''"
  by (auto simp: toLowerCaseChar_def split: if_splits)

lemma map_eq_six:
  "map h v = [p, q, r, s, t, u] \<longleftrightarrow>
     (\<exists>a b c d e f. v = [a, b, c, d, e, f] \<and>
        h a = p \<and> h b = q \<and> h c = r \<and> h d = s \<and> h e = t \<and> h f = u)"
  by (auto simp: map_eq_Cons_conv)

lemma toLowerCase_gemini:
  "toLowerCase v = ''gemini'' \<longleftrightarrow>
     (\<exists>a b c d e f. v = [a, b, c, d, e, f] \<and>
        a \<in> {CHR ''g'', CHR ''G''} \<and> b \<in> {CHR ''e'', CHR ''E''} \<and>
        c \<in> {CHR ''m'', CHR ''M''} \<and> d \<in> {CHR ''i'', CHR ''I''} \<and>
        e \<in> {CHR ''n'', CHR ''N''} \<and> f \<in> {CHR ''i'', CHR ''I''})"
  unfolding toLowerCase_def map_eq_six toLowerCaseChar_cases
  by simp

text \<open>
  C10. Provider selection returns "gemini" if and only if AI_PROVIDER is set to one of
  the spellings of "gemini" in upper or lower case letters; every other environment
  (the variable unset, empty or spelled otherwise) selects "vertex". The function is a
  pure expression, so nothing is written or raised on the way.
\<close>

theorem getAIProvider_gemini_iff:
  "(getAIProvider env = Gemini \<longleftrightarrow>
      (\<exists>a b c d e f. env ''AI_PROVIDER'' = Some [a, b, c, d, e, f] \<and>
         a \<in> {CHR ''g'', CHR ''G''} \<and> b \<in> {CHR ''e'', CHR ''E''} \<and>
         c \<in> {CHR ''m'', CHR ''M''} \<and> d \<in> {CHR ''i'', CHR ''I''} \<and>
         e \<in> {CHR ''n'', CHR ''N''} \<and> f \<in> {CHR ''i'', CHR ''I''})) \<and>
   (getAIProvider env = Vertex \<longleftrightarrow> getAIProvider env \<noteq> Gemini) \<and>
   (getAIProvider env = Vertex \<longleftrightarrow>
      (\<forall>v. env ''AI_PROVIDER'' = Some v \<longrightarrow> toLowerCase v \<noteq> ''gemini''))"
proof -
  have sel: "getAIProvider env = Gemini \<longleftrightarrow>
      (\<exists>v. env ''AI_PROVIDER'' = Some v \<and> toLowerCase v = ''gemini'')"
    by (cases "env ''AI_PROVIDER''") (simp_all add: getAIProvider_def)
  have other: "getAIProvider env = Vertex \<longleftrightarrow> getAIProvider env \<noteq> Gemini"
    by (cases "getAIProvider env") simp_all
  have "getAIProvider env = Gemini \<longleftrightarrow>
      (\<exists>a b c d e f. env ''AI_PROVIDER'' = Some [a, b, c, d, e, f] \<and>
         a \<in> {CHR ''g'', CHR ''G''} \<and> b \<in> {CHR ''e'', CHR ''E''} \<and>
         c \<in> {CHR ''m'', CHR ''M''} \<and> d \<in> {CHR ''i'', CHR ''I''} \<and>
         e \<in> {CHR ''n'', CHR ''N''} \<and> f \<in> {CHR ''i'', CHR ''I''})"
    unfolding sel toLowerCase_gemini by blast
  moreover have "getAIProvider env = Vertex \<longleftrightarrow>
      (\<forall>v. env ''AI_PROVIDER'' = Some v \<longrightarrow> toLowerCase v \<noteq> ''gemini'')"
    unfolding other sel by blast
  ultimately show ?thesis using other by blast
qed

theorem getAIProvider_gemini_iff_witness:
  "getAIProvider [''AI_PROVIDER'' \<mapsto> ''GeMiNi''] = Gemini \<and>
   getAIProvider [''AI_PROVIDER'' \<mapsto> ''gemni''] = Vertex \<and>
   getAIProvider [''AI_PROVIDER'' \<mapsto> ''''] = Vertex \<and>
   getAIProvider Map.empty = Vertex"
proof -
  have "getAIProvider [''AI_PROVIDER'' \<mapsto> ''GeMiNi''] = Gemini"
    using getAIProvider_gemini_iff [of "[''AI_PROVIDER'' \<mapsto> ''GeMiNi'']"] by simp
  moreover have "getAIProvider [''AI_PROVIDER'' \<mapsto> ''gemni''] = Vertex"
    using getAIProvider_gemini_iff [of "[''AI_PROVIDER'' \<mapsto> ''gemni'']"]
    by (simp add: toLowerCase_def toLowerCaseChar_def)
  moreover have "getAIProvider [''AI_PROVIDER'' \<mapsto> ''''] = Vertex"
    using getAIProvider_gemini_iff [of "[''AI_PROVIDER'' \<mapsto> '''']"]
    by (simp add: toLowerCase_def)
  moreover have "getAIProvider Map.empty = Vertex"
    using getAIProvider_gemini_iff [of Map.empty] by simp
  ultimately show ?thesis by simp
qed

text \<open>
  C7. \<open>validateConfig\<close> ends the process exactly when the mandatory credential of the
  selected provider is absent (GOOGLE_CLOUD_PROJECT for "vertex", GEMINI_API_KEY for
  "gemini"); it then exits with code 1 and an error line that names the provider and
  the missing variable. When the credential is present it returns.
\<close>

theorem validateConfig_exits_iff_credential_absent:
  "(validateConfig env = Returned \<longleftrightarrow> \<not> credentialAbsent env) \<and>
   (credentialAbsent env \<longrightarrow>
      validateConfig env = Exited 1 (exitMessage (validateConfig env)) \<and>
      includes_str (exitMessage (validateConfig env)) (mandatoryCredential (getAIProvider env)) \<and>
      includes_str (exitMessage (validateConfig env)) (providerName (getAIProvider env)))"
  by (cases "getAIProvider env"; cases "env (mandatoryCredential (getAIProvider env))")
     (simp_all add: validateConfig_def credentialAbsent_def mandatoryCredential_def
        exitMessage_def providerName_def truthy_def Let_def)

theorem validateConfig_exits_iff_credential_absent_witness:
  "credentialAbsent [''AI_PROVIDER'' \<mapsto> ''gemini'', ''GOOGLE_CLOUD_PROJECT'' \<mapsto> ''p''] \<and>
   validateConfig [''AI_PROVIDER'' \<mapsto> ''gemini'', ''GOOGLE_CLOUD_PROJECT'' \<mapsto> ''p''] =
     Exited 1 ''Error: AI_PROVIDER is 'gemini' but GEMINI_API_KEY environment variable is not set.'' \<and>
   \<not> credentialAbsent [''GOOGLE_CLOUD_PROJECT'' \<mapsto> ''p''] \<and>
   validateConfig [''GOOGLE_CLOUD_PROJECT'' \<mapsto> ''p''] = Returned"
proof -
  let ?e = "[''AI_PROVIDER'' \<mapsto> ''gemini'', ''GOOGLE_CLOUD_PROJECT'' \<mapsto> ''p'']"
  let ?f = "[''GOOGLE_CLOUD_PROJECT'' \<mapsto> ''p'']"
  have g: "getAIProvider ?e = Gemini"
    by (simp add: getAIProvider_def toLowerCase_def toLowerCaseChar_def)
  have v: "getAIProvider ?f = Vertex"
    by (simp add: getAIProvider_def)
  have a: "credentialAbsent ?e"
    by (simp add: credentialAbsent_def g mandatoryCredential_def)
  have b: "\<not> credentialAbsent ?f"
    by (simp add: credentialAbsent_def v mandatoryCredential_def)
  have "validateConfig ?e = Exited 1 (exitMessage (validateConfig ?e))"
    using validateConfig_exits_iff_credential_absent [of ?e] a by blast
  moreover have "exitMessage (validateConfig ?e) =
      ''Error: AI_PROVIDER is 'gemini' but GEMINI_API_KEY environment variable is not set.''"
    by (simp add: validateConfig_def g exitMessage_def truthy_def)
  moreover have "validateConfig ?f = Returned"
    using validateConfig_exits_iff_credential_absent [of ?f] b by blast
  ultimately show ?thesis using a b by simp
qed

section \<open>Facts on double arithmetic\<close>

lemma log2floor_nonneg: "0 \<le> log2floor n"
  by (induction n rule: log2floor.induct) (subst log2floor.simps, simp)

lemma log2floor_lower: "1 \<le> n \<Longrightarrow> 2 ^ nat (log2floor n) \<le> n"
proof (induction n rule: log2floor.induct)
  case (1 n)
  show ?case
  proof (cases "n < 2")
    case True
    then show ?thesis using "1.prems" by (subst log2floor.simps) simp
  next
    case False
    then have half: "1 \<le> n div 2" by simp
    have ih: "2 ^ nat (log2floor (n div 2)) \<le> n div 2"
      using "1.IH" [OF False half] .
    have "nat (1 + log2floor (n div 2)) = Suc (nat (log2floor (n div 2)))"
      using log2floor_nonneg [of "n div 2"] by simp
    then have "2 ^ nat (log2floor n) = 2 * 2 ^ nat (log2floor (n div 2))"
      using False by (subst log2floor.simps) simp
    also have "\<dots> \<le> 2 * (n div 2)" using ih by simp
    also have "\<dots> \<le> n" by simp
    finally show ?thesis .
  qed
qed

lemma exponentOf_small:
  assumes "0 < x" and "x < 2 ^ 53"
  shows "exponentOf x \<le> 52"
proof (cases "1 \<le> x")
  case False
  then show ?thesis
    using log2floor_nonneg [of "\<lceil>1 / x\<rceil> - 1"] by (simp add: exponentOf_def)
next
  case True
  then have "1 \<le> \<lfloor>x\<rfloor>" by simp
  then have "(2::int) ^ nat (log2floor \<lfloor>x\<rfloor>) \<le> \<lfloor>x\<rfloor>" by (rule log2floor_lower)
  then have "(2::real) ^ nat (log2floor \<lfloor>x\<rfloor>) \<le> of_int \<lfloor>x\<rfloor>"
    by (metis of_int_le_iff of_int_numeral of_int_power)
  also have "\<dots> \<le> x" by simp
  also have "\<dots> < 2 ^ 53" by (rule assms(2))
  finally have "(2::real) ^ nat (log2floor \<lfloor>x\<rfloor>) < 2 ^ 53" .
  then have "nat (log2floor \<lfloor>x\<rfloor>) < 53"
    using power_less_imp_less_exp [of "2::real" "nat (log2floor \<lfloor>x\<rfloor>)" 53] by simp
  then show ?thesis using True by (simp add: exponentOf_def)
qed

lemma roundHalfEven_bounds: "\<lfloor>q\<rfloor> \<le> roundHalfEven q" "roundHalfEven q \<le> \<lceil>q\<rceil>"
proof -
  show "\<lfloor>q\<rfloor> \<le> roundHalfEven q" by (simp add: roundHalfEven_def Let_def)
  have "\<lfloor>q\<rfloor> + 1 \<le> \<lceil>q\<rceil>" if "1 / 2 \<le> q - of_int \<lfloor>q\<rfloor>"
  proof -
    have "of_int \<lfloor>q\<rfloor> < q" using that by simp
    then have "\<lfloor>q\<rfloor> < \<lceil>q\<rceil>" by (simp only: less_ceiling_iff)
    then show ?thesis by linarith
  qed
  moreover have "\<lfloor>q\<rfloor> \<le> \<lceil>q\<rceil>" by (simp add: floor_le_ceiling)
  ultimately show "roundHalfEven q \<le> \<lceil>q\<rceil>"
    by (auto simp: roundHalfEven_def Let_def)
qed

text \<open>Rounding keeps a real between two integers below \<open>2^53\<close> between them.\<close>

lemma roundPositive_between:
  assumes "0 < x" and "of_int a \<le> x" and "x \<le> of_int b" and "b < 2 ^ 53"
  shows "\<exists>r. roundPositive x = Finite r \<and> of_int a \<le> r \<and> r \<le> of_int b"
proof -
  define e where "e = max (exponentOf x) (- 1022)"
  define s where "s = nat (52 - e)"
  define n where "n = roundHalfEven (x * 2 ^ s)"
  have "x < 2 ^ 53"
  proof -
    have "(of_int b :: real) < 2 ^ 53"
      using assms(4) by (metis of_int_less_iff of_int_numeral of_int_power)
    then show ?thesis using assms(3) by simp
  qed
  then have e52: "e \<le> 52" using exponentOf_small [OF assms(1)] by (simp add: e_def)
  then have ulp: "twoTo (e - 52) = 1 / 2 ^ s"
    by (cases "e = 52") (simp_all add: twoTo_def s_def)
  have rp: "roundPositive x = Finite (of_int n / 2 ^ s)"
    using e52 ulp by (simp add: roundPositive_def Let_def e_def [symmetric] n_def)
  have "of_int (a * 2 ^ s) \<le> x * 2 ^ s" using assms(2) by simp
  then have "a * 2 ^ s \<le> \<lfloor>x * 2 ^ s\<rfloor>" by (simp only: le_floor_iff)
  then have lo: "a * 2 ^ s \<le> n" using roundHalfEven_bounds(1) [of "x * 2 ^ s"] by (simp add: n_def)
  have "x * 2 ^ s \<le> of_int (b * 2 ^ s)" using assms(3) by simp
  then have "\<lceil>x * 2 ^ s\<rceil> \<le> b * 2 ^ s" by (simp only: ceiling_le_iff)
  then have hi: "n \<le> b * 2 ^ s" using roundHalfEven_bounds(2) [of "x * 2 ^ s"] by (simp add: n_def)
  have "(of_int a :: real) * 2 ^ s \<le> of_int n"
    using lo by (metis of_int_le_iff of_int_mult of_int_numeral of_int_power)
  then have 1: "of_int a \<le> (of_int n :: real) / 2 ^ s" by (simp add: pos_le_divide_eq)
  have "(of_int n :: real) \<le> of_int b * 2 ^ s"
    using hi by (metis of_int_le_iff of_int_mult of_int_numeral of_int_power)
  then have 2: "(of_int n :: real) / 2 ^ s \<le> of_int b" by (simp add: pos_divide_le_eq)
  show ?thesis using rp 1 2 by simp
qed

lemma toDouble_between:
  assumes "0 \<le> a" and "of_int a \<le> x" and "x \<le> of_int b" and "b < 2 ^ 53"
  shows "\<exists>r. toDouble x = Finite r \<and> of_int a \<le> r \<and> r \<le> of_int b"
proof (cases "x = 0")
  case True
  then show ?thesis using assms(2,3) by (simp add: toDouble_def)
next
  case False
  have "(0::real) \<le> of_int a" using assms(1) by simp
  then have "0 < x" using assms(2) False by linarith
  then show ?thesis
    using roundPositive_between [OF _ assms(2,3,4)] by (simp add: toDouble_def)
qed

lemma toDouble_integer:
  assumes "0 \<le> a" and "a < 2 ^ 53"
  shows "toDouble (of_int a) = Finite (of_int a)"
  using toDouble_between [OF assms(1) order_refl order_refl assms(2)] by auto

lemma toDouble_nat:
  assumes "real m < 2 ^ 53"
  shows "toDouble (real m) = Finite (real m)"
proof -
  have "int m < 2 ^ 53"
    using assms by (metis of_int_less_iff of_int_numeral of_int_of_nat_eq of_int_power)
  then show ?thesis using toDouble_integer [of "int m"] by simp
qed

text \<open>
  In the range where every integer is a double, the product \<open>retryDelayMs * 2^attempt\<close>
  is exact and the jitter moves the delay by at most 500.
\<close>

lemma retryDelay_vertex_exact:
  assumes "a \<le> 1023" and "real d * 2 ^ a < 2 ^ 53"
  shows "retryDelay_vertex d a = Finite (real d * 2 ^ a)"
proof -
  have "real d \<le> real d * 2 ^ a" by (simp add: mult_le_cancel_left1)
  then have "toDouble (real d) = Finite (real d)"
    using assms(2) by (intro toDouble_nat) linarith
  moreover have "toDouble (real (d * 2 ^ a)) = Finite (real (d * 2 ^ a))"
    using assms(2) by (intro toDouble_nat) simp
  ultimately show ?thesis using assms(1) by (simp add: retryDelay_vertex_def pow2_def)
qed

lemma retryDelay_bounds:
  assumes "0 \<le> random a" and "random a < 1"
    and "a \<le> 1023" and "real (retryDelayMs cfg) * 2 ^ a + 500 < 2 ^ 53"
  shows "\<exists>d. retryDelay cfg random a = Finite d \<and>
           real (retryDelayMs cfg) * 2 ^ a \<le> d \<and> d \<le> real (retryDelayMs cfg) * 2 ^ a + 500"
proof -
  let ?base = "retryDelayMs cfg * 2 ^ a"
  have base: "numberTimes (toDouble (real (retryDelayMs cfg))) (pow2 a) = Finite (real ?base)"
    using retryDelay_vertex_exact [of a "retryDelayMs cfg"] assms(3,4)
    by (simp add: retryDelay_vertex_def)
  obtain j where j: "toDouble (random a * 500) = Finite j" "0 \<le> j" "j \<le> 500"
    using toDouble_between [of 0 "random a * 500" 500] assms(1,2) by auto
  have small: "int ?base + 500 < 2 ^ 53"
  proof -
    have "real_of_int (int ?base + 500) < 2 ^ 53" using assms(4) by simp
    then show ?thesis by (metis of_int_less_iff of_int_numeral of_int_power)
  qed
  have "\<exists>r. toDouble (real ?base + j) = Finite r \<and>
      of_int (int ?base) \<le> r \<and> r \<le> of_int (int ?base + 500)"
    using j small by (intro toDouble_between) simp_all
  then obtain r where r: "toDouble (real ?base + j) = Finite r"
    "real ?base \<le> r" "r \<le> real ?base + 500"
    by auto
  have "retryDelay cfg random a = Finite r"
    using base j(1) r(1) by (simp add: retryDelay_def)
  then show ?thesis using r(2,3) by simp
qed

text \<open>The equations that evaluate a delay at given numbers.\<close>

lemmas number_eval =
  retryDelay_def retryDelay_vertex_def toDouble_def roundPositive_def exponentOf_def
  log2floor.simps twoTo_def roundHalfEven_def pow2_def signOf_def Let_def

section \<open>The retry loops, step by step\<close>

lemma retryLoop_success:
  assumes "attempt \<le> maxRetries cfg" and "body attempt = Inr t"
  shows "retryLoop cfg body random attempt slept =
           \<lparr>outcome = Inr t, sleeps = slept, attempts = attempt + 1\<rparr>"
  using assms by (subst retryLoop.simps) simp

lemma retryLoop_retry:
  assumes "attempt < maxRetries cfg" and "body attempt = Inl e"
    and "isRetryable (errorMessageString e)"
  shows "retryLoop cfg body random attempt slept =
           retryLoop cfg body random (attempt + 1) (slept @ [retryDelay cfg random attempt])"
  using assms by (subst retryLoop.simps) simp

lemma retryLoop_final:
  assumes "attempt \<le> maxRetries cfg" and "body attempt = Inl e"
    and "\<not> isRetryable (errorMessageString e) \<or> attempt = maxRetries cfg"
  shows "retryLoop cfg body random attempt slept =
           \<lparr>outcome = Inl (McpError InternalError (finalErrorMessage (provider cfg) e)),
            sleeps = slept, attempts = attempt + 1\<rparr>"
  using assms by (subst retryLoop.simps) auto

lemma retryLoop_prefix:
  assumes "\<And>i. i < k \<Longrightarrow> \<exists>e. body (a + i) = Inl e \<and> isRetryable (errorMessageString e)"
    and "a + k \<le> maxRetries cfg"
  shows "retryLoop cfg body random a slept =
           retryLoop cfg body random (a + k) (slept @ map (retryDelay cfg random) [a..<a + k])"
  using assms
proof (induction k arbitrary: a slept)
  case 0
  then show ?case by simp
next
  case (Suc k)
  from Suc.prems(1) [of 0] obtain e where e: "body a = Inl e" "isRetryable (errorMessageString e)"
    by auto
  have step: "retryLoop cfg body random a slept =
      retryLoop cfg body random (Suc a) (slept @ [retryDelay cfg random a])"
    using retryLoop_retry [of a cfg body e random slept] e Suc.prems(2) by simp
  have rest: "\<And>i. i < k \<Longrightarrow> \<exists>e. body (Suc a + i) = Inl e \<and> isRetryable (errorMessageString e)"
    using Suc.prems(1) by (metis Suc_less_eq add_Suc_shift)
  have "retryLoop cfg body random (Suc a) (slept @ [retryDelay cfg random a]) =
      retryLoop cfg body random (Suc a + k)
        ((slept @ [retryDelay cfg random a]) @ map (retryDelay cfg random) [Suc a..<Suc a + k])"
    using Suc.IH [of "Suc a" "slept @ [retryDelay cfg random a]"] rest Suc.prems(2) by simp
  moreover have "[a..<a + Suc k] = a # [Suc a..<Suc a + k]"
    by (simp add: upt_conv_Cons)
  ultimately show ?case using step by simp
qed

lemma retryLoop_attempts_bound:
  "attempts (retryLoop cfg body random attempt slept) \<le> max attempt (maxRetries cfg + 1)"
proof (induction cfg body random attempt slept rule: retryLoop.induct)
  case (1 cfg body random attempt slept)
  show ?case
  proof (cases "attempt \<le> maxRetries cfg")
    case False
    then show ?thesis by (subst retryLoop.simps) simp
  next
    case le: True
    show ?thesis
    proof (cases "body attempt")
      case (Inr t)
      then show ?thesis using le by (simp add: retryLoop_success)
    next
      case (Inl e)
      show ?thesis
      proof (cases "isRetryable (errorMessageString e) \<and> attempt < maxRetries cfg")
        case True
        then have "retryLoop cfg body random attempt slept =
            retryLoop cfg body random (attempt + 1) (slept @ [retryDelay cfg random attempt])"
          using Inl by (simp add: retryLoop_retry)
        moreover have "attempts (retryLoop cfg body random (attempt + 1)
            (slept @ [retryDelay cfg random attempt])) \<le> max (attempt + 1) (maxRetries cfg + 1)"
          using "1.IH" [OF le Inl True] .
        ultimately show ?thesis using True by simp
      next
        case False
        then have "\<not> isRetryable (errorMessageString e) \<or> attempt = maxRetries cfg"
          using le by auto
        then show ?thesis using le Inl by (simp add: retryLoop_final)
      qed
    qed
  qed
qed

lemma retryLoop_returns_attempt_text:
  "outcome (retryLoop cfg body random attempt slept) = Inr t \<Longrightarrow> \<exists>a. body a = Inr t"
proof (induction cfg body random attempt slept rule: retryLoop.induct)
  case (1 cfg body random attempt slept)
  show ?case
  proof (cases "attempt \<le> maxRetries cfg")
    case False
    then show ?thesis using "1.prems" by (subst (asm) retryLoop.simps) simp
  next
    case le: True
    show ?thesis
    proof (cases "body attempt")
      case (Inr u)
      then show ?thesis using le "1.prems" by (auto simp: retryLoop_success)
    next
      case (Inl e)
      show ?thesis
      proof (cases "isRetryable (errorMessageString e) \<and> attempt < maxRetries cfg")
        case True
        then have "retryLoop cfg body random attempt slept =
            retryLoop cfg body random (attempt + 1) (slept @ [retryDelay cfg random attempt])"
          using Inl by (simp add: retryLoop_retry)
        then show ?thesis using "1.IH" [OF le Inl True] "1.prems" by simp
      next
        case False
        then have "\<not> isRetryable (errorMessageString e) \<or> attempt = maxRetries cfg"
          using le by auto
        then show ?thesis using le Inl "1.prems" by (simp add: retryLoop_final)
      qed
    qed
  qed
qed

lemma retryLoop_vertex_success:
  assumes "attempt \<le> n" and "body attempt = Inr t"
  shows "retryLoop_vertex n d body attempt slept =
           \<lparr>outcome = Inr t, sleeps = slept, attempts = attempt + 1\<rparr>"
  using assms by (subst retryLoop_vertex.simps) simp

lemma retryLoop_vertex_retry:
  assumes "attempt < n" and "body attempt = Inl e"
    and "isRetryable_vertex (errorMessageString_vertex e)"
  shows "retryLoop_vertex n d body attempt slept =
           retryLoop_vertex n d body (attempt + 1) (slept @ [retryDelay_vertex d attempt])"
  using assms by (subst retryLoop_vertex.simps) simp

lemma retryLoop_vertex_final:
  assumes "attempt \<le> n" and "body attempt = Inl e"
    and "\<not> isRetryable_vertex (errorMessageString_vertex e) \<or> attempt = n"
  shows "retryLoop_vertex n d body attempt slept =
           \<lparr>outcome = Inl (McpError InternalError (errorMessage_vertex e)),
            sleeps = slept, attempts = attempt + 1\<rparr>"
  using assms by (subst retryLoop_vertex.simps) auto

lemma retryLoop_vertex_prefix:
  assumes "\<And>i. i < k \<Longrightarrow>
             \<exists>e. body (a + i) = Inl e \<and> isRetryable_vertex (errorMessageString_vertex e)"
    and "a + k \<le> n"
  shows "retryLoop_vertex n d body a slept =
           retryLoop_vertex n d body (a + k) (slept @ map (retryDelay_vertex d) [a..<a + k])"
  using assms
proof (induction k arbitrary: a slept)
  case 0
  then show ?case by simp
next
  case (Suc k)
  from Suc.prems(1) [of 0] obtain e
    where e: "body a = Inl e" "isRetryable_vertex (errorMessageString_vertex e)"
    by auto
  have step: "retryLoop_vertex n d body a slept =
      retryLoop_vertex n d body (Suc a) (slept @ [retryDelay_vertex d a])"
    using retryLoop_vertex_retry [of a n body e d slept] e Suc.prems(2) by simp
  have rest: "\<And>i. i < k \<Longrightarrow>
      \<exists>e. body (Suc a + i) = Inl e \<and> isRetryable_vertex (errorMessageString_vertex e)"
    using Suc.prems(1) by (metis Suc_less_eq add_Suc_shift)
  have "retryLoop_vertex n d body (Suc a) (slept @ [retryDelay_vertex d a]) =
      retryLoop_vertex n d body (Suc a + k)
        ((slept @ [retryDelay_vertex d a]) @ map (retryDelay_vertex d) [Suc a..<Suc a + k])"
    using Suc.IH [of "Suc a" "slept @ [retryDelay_vertex d a]"] rest Suc.prems(2) by simp
  moreover have "[a..<a + Suc k] = a # [Suc a..<Suc a + k]"
    by (simp add: upt_conv_Cons)
  ultimately show ?case using step by simp
qed

section \<open>Facts on the string functions\<close>

lemma startsWith_includes: "startsWith s w \<Longrightarrow> includes_str s w"
  by (cases s; cases w) simp_all

lemma startsWith_append: "startsWith s w \<Longrightarrow> startsWith (s @ r) w"
  by (induction s w rule: startsWith.induct) simp_all

lemma includes_str_append: "includes_str s w \<Longrightarrow> includes_str (s @ r) w"
proof (induction s)
  case Nil
  then show ?case by (cases r) simp_all
next
  case (Cons c cs)
  then show ?case using startsWith_append [of "c # cs" w r] by auto
qed

lemma firstToken_Some: "firstToken ts s = Some t \<Longrightarrow> t \<in> set ts \<and> startsWith s t"
  by (induction ts) (auto split: if_splits)

lemma matchStatus_Some:
  "matchStatus ts p s = Some t \<Longrightarrow> t \<in> set ts \<and> includes_str s t"
proof (induction s arbitrary: p)
  case Nil
  then show ?case by simp
next
  case (Cons c cs)
  show ?case
  proof (cases "if p then None else firstToken ts (c # cs)")
    case None
    then have "matchStatus ts (isWordChar c) cs = Some t" using Cons.prems by simp
    then show ?thesis using Cons.IH by auto
  next
    case (Some u)
    then have "u = t" using Cons.prems by simp
    moreover have "firstToken ts (c # cs) = Some u" using Some by (simp split: if_splits)
    ultimately show ?thesis using firstToken_Some [of ts "c # cs" t] startsWith_includes by auto
  qed
qed

lemma no_signature_no_status:
  assumes "\<not> transientSignature m"
  shows "matchStatus statusTokens False m = None"
proof (cases "matchStatus statusTokens False m")
  case None
  then show ?thesis .
next
  case (Some t)
  then have "t \<in> set statusTokens \<and> includes_str m t" by (rule matchStatus_Some)
  then show ?thesis using assms by (auto simp: statusTokens_def transientSignature_def)
qed

lemma fatal_message:
  assumes "\<not> isBlockingError (errorMessageString e)"
    and "\<not> transientSignature (errorMessageString e)"
  shows "finalErrorMessage p e =
           providerName p @ '' AI API error: '' @ orElse (message e) ''Unknown error''"
proof -
  have "matchStatus statusTokens False (errorMessageString e) = None"
    using assms(2) by (rule no_signature_no_status)
  moreover have "\<not> includes_str (errorMessageString e) ''deadline_exceeded''"
    using assms(2) by (simp add: transientSignature_def)
  ultimately show ?thesis using assms(1) by (simp add: finalErrorMessage_def)
qed

lemma fatal_message_vertex:
  assumes "\<not> includes_str (errorMessageString_vertex e) ''429''"
    and "\<not> includes_str (errorMessageString_vertex e) ''500''"
    and "\<not> includes_str (errorMessageString_vertex e) ''503''"
  shows "errorMessage_vertex e = ''Vertex AI API error: '' @ orElse (message e) ''Unknown error''"
proof -
  have "matchStatus [''429'', ''500'', ''503''] False (errorMessageString_vertex e) = None"
  proof (cases "matchStatus [''429'', ''500'', ''503''] False (errorMessageString_vertex e)")
    case None
    then show ?thesis .
  next
    case (Some t)
    then have "t \<in> set [''429'', ''500'', ''503''] \<and> includes_str (errorMessageString_vertex e) t"
      by (rule matchStatus_Some)
    then show ?thesis using assms by auto
  qed
  then show ?thesis by (simp add: errorMessage_vertex_def)
qed

section \<open>Whole calls\<close>

lemma call_after_retryable_prefix:
  assumes "k \<le> maxRetries cfg"
    and "\<forall>a<k. \<exists>e. runAttempt cfg tools s a = Inl e \<and> isRetryable (errorMessageString e)"
  shows "callGenerativeAI cfg tools s random =
           retryLoop cfg (runAttempt cfg tools s) random k (map (retryDelay cfg random) [0..<k])"
proof -
  have "retryLoop cfg (runAttempt cfg tools s) random 0 [] =
      retryLoop cfg (runAttempt cfg tools s) random (0 + k)
        ([] @ map (retryDelay cfg random) [0..<0 + k])"
    using assms by (intro retryLoop_prefix) auto
  then show ?thesis by (simp add: callGenerativeAI_def)
qed

lemma call_vertex_after_retryable_prefix:
  assumes "k \<le> n"
    and "\<forall>a<k. \<exists>e. runAttempt_vertex st tools s a = Inl e \<and>
           isRetryable_vertex (errorMessageString_vertex e)"
  shows "callVertexAIWithOptionalFunctionCalling tools st n d s =
           retryLoop_vertex n d (runAttempt_vertex st tools s) k
             (map (retryDelay_vertex d) [0..<k])"
proof -
  have "retryLoop_vertex n d (runAttempt_vertex st tools s) 0 [] =
      retryLoop_vertex n d (runAttempt_vertex st tools s) (0 + k)
        ([] @ map (retryDelay_vertex d) [0..<0 + k])"
    using assms by (intro retryLoop_vertex_prefix) auto
  then show ?thesis by (simp add: callVertexAIWithOptionalFunctionCalling_def)
qed

lemma call_ends_at_final_error:
  assumes "a \<le> maxRetries cfg"
    and "\<forall>i<a. \<exists>e'. runAttempt cfg tools s i = Inl e' \<and> isRetryable (errorMessageString e')"
    and "runAttempt cfg tools s a = Inl e"
    and "\<not> isRetryable (errorMessageString e) \<or> a = maxRetries cfg"
  shows "callGenerativeAI cfg tools s random =
           \<lparr>outcome = Inl (McpError InternalError (finalErrorMessage (provider cfg) e)),
            sleeps = map (retryDelay cfg random) [0..<a], attempts = a + 1\<rparr>"
  using call_after_retryable_prefix [OF assms(1,2)] retryLoop_final [where body = "runAttempt cfg tools s", OF assms(1,3,4)]
  by simp

lemma call_vertex_ends_at_final_error:
  assumes "a \<le> n"
    and "\<forall>i<a. \<exists>e'. runAttempt_vertex st tools s i = Inl e' \<and>
           isRetryable_vertex (errorMessageString_vertex e')"
    and "runAttempt_vertex st tools s a = Inl e"
    and "\<not> isRetryable_vertex (errorMessageString_vertex e) \<or> a = n"
  shows "callVertexAIWithOptionalFunctionCalling tools st n d s =
           \<lparr>outcome = Inl (McpError InternalError (errorMessage_vertex e)),
            sleeps = map (retryDelay_vertex d) [0..<a], attempts = a + 1\<rparr>"
  using call_vertex_after_retryable_prefix [OF assms(1,2)] retryLoop_vertex_final [where body = "runAttempt_vertex st tools s", OF assms(1,3,4)]
  by simp

lemma call_returns_after_retries:
  assumes "k \<le> maxRetries cfg"
    and "\<forall>a<k. \<exists>e. runAttempt cfg tools s a = Inl e \<and> isRetryable (errorMessageString e)"
    and "runAttempt cfg tools s k = Inr t"
  shows "callGenerativeAI cfg tools s random =
           \<lparr>outcome = Inr t, sleeps = map (retryDelay cfg random) [0..<k], attempts = k + 1\<rparr>"
  using call_after_retryable_prefix [OF assms(1,2)] retryLoop_success [where body = "runAttempt cfg tools s", OF assms(1,3)]
  by simp

lemma call_vertex_returns_after_retries:
  assumes "k \<le> n"
    and "\<forall>a<k. \<exists>e. runAttempt_vertex st tools s a = Inl e \<and>
           isRetryable_vertex (errorMessageString_vertex e)"
    and "runAttempt_vertex st tools s k = Inr t"
  shows "callVertexAIWithOptionalFunctionCalling tools st n d s =
           \<lparr>outcome = Inr t, sleeps = map (retryDelay_vertex d) [0..<k], attempts = k + 1\<rparr>"
  using call_vertex_after_retryable_prefix [OF assms(1,2)] retryLoop_vertex_success [where body = "runAttempt_vertex st tools s", OF assms(1,3)]
  by simp

section \<open>Facts on one attempt\<close>

lemma finishStream_nonempty: "finishStream p acc agg = Inr t \<Longrightarrow> t \<noteq> []"
  by (simp add: finishStream_def Let_def split: if_splits)

lemma extractText_nonempty: "extractText p rt = Inr t \<Longrightarrow> t \<noteq> []"
  by (simp add: extractText_def split: option.splits if_splits)

lemma streamVertex_nonempty: "streamVertex c = Inr t \<Longrightarrow> t \<noteq> []"
  by (auto simp: streamVertex_def Let_def dest: finishStream_nonempty
      split: sum.splits option.splits if_splits)

lemma streamGemini_nonempty: "streamGemini c = Inr t \<Longrightarrow> t \<noteq> []"
  by (auto simp: streamGemini_def Let_def dest: finishStream_nonempty
      split: sum.splits option.splits if_splits)

lemma nonStreamVertex_nonempty: "nonStreamVertex c = Inr t \<Longrightarrow> t \<noteq> []"
  by (auto simp: nonStreamVertex_def Let_def dest: extractText_nonempty
      split: sum.splits if_splits)

lemma nonStreamGemini_nonempty: "nonStreamGemini c = Inr t \<Longrightarrow> t \<noteq> []"
  by (auto simp: nonStreamGemini_def Let_def dest: extractText_nonempty
      split: sum.splits if_splits)

lemma runAttempt_nonempty: "runAttempt cfg tools s a = Inr t \<Longrightarrow> t \<noteq> []"
  by (auto simp: runAttempt_def Let_def split: if_splits
      dest: streamVertex_nonempty streamGemini_nonempty nonStreamVertex_nonempty
            nonStreamGemini_nonempty)

lemma accumulateVertex_deltas:
  "map partText cs = map Some ts \<Longrightarrow> accumulateVertex acc cs = acc @ concat ts"
proof (induction cs arbitrary: ts acc)
  case Nil
  then show ?case by simp
next
  case (Cons c cs)
  then obtain u us where ts: "ts = u # us" "partText c = Some u" "map partText cs = map Some us"
    by (cases ts) auto
  then show ?case using Cons.IH [of us "acc @ u"] by simp
qed

lemma accumulateGemini_deltas:
  "map textMethod cs = map Inr ts \<Longrightarrow> accumulateGemini acc cs = Inr (acc @ concat ts)"
proof (induction cs arbitrary: ts acc)
  case Nil
  then show ?case by simp
next
  case (Cons c cs)
  then obtain u us where ts: "ts = u # us" "textMethod c = Inr u" "map textMethod cs = map Inr us"
    by (cases ts) auto
  then show ?case using Cons.IH [of us "acc @ u"] by simp
qed

lemma blocked_prefix_error:
  assumes "includes_str (toLowerCase pre) ''blocked''"
  shows "isBlockingError (errorMessageString (newError (pre @ b)))"
proof -
  have "pre \<noteq> []" using assms by (auto simp: toLowerCase_def)
  then have "errorMessageString (newError (pre @ b)) = toLowerCase pre @ toLowerCase b"
    by (simp add: errorMessageString_def newError_def truthy_def template_def toLowerCase_def)
  then show ?thesis using assms by (simp add: isBlockingError_def includes_str_append)
qed

lemma vertex_block_error_blocking:
  "isBlockingError (errorMessageString
     (newError (''Vertex Content generation blocked. Reason: '' @ b)))"
proof -
  have "includes_str (toLowerCase ''Vertex Content generation blocked. Reason: '') ''blocked''"
    by code_simp
  then show ?thesis by (rule blocked_prefix_error)
qed

lemma gemini_aggregated_block_error_blocking:
  "isBlockingError (errorMessageString
     (newError (''Gemini Content generation blocked. Aggregated Reason: '' @ b)))"
proof -
  have "includes_str (toLowerCase ''Gemini Content generation blocked. Aggregated Reason: '')
      ''blocked''"
    by code_simp
  then show ?thesis by (rule blocked_prefix_error)
qed

lemma gemini_response_block_error_blocking:
  "isBlockingError (errorMessageString
     (newError (''Gemini Content generation blocked. Response Reason: '' @ b)))"
proof -
  have "includes_str (toLowerCase ''Gemini Content generation blocked. Response Reason: '')
      ''blocked''"
    by code_simp
  then show ?thesis by (rule blocked_prefix_error)
qed

lemma fixed_errors_classified:
  "isBlockingError (errorMessageString
     (newError ''Gemini Content generation blocked. Aggregated Finish Reason: SAFETY''))"
  "isBlockingError (errorMessageString
     (newError ''Gemini Content generation blocked. Response Finish Reason: SAFETY''))"
  "\<not> isBlockingError (errorMessageString
     (newError ''Received empty or non-text response from vertex AI stream.''))"
  "\<not> isBlockingError (errorMessageString
     (newError ''Received empty or non-text response from gemini AI stream.''))"
  "\<not> isBlockingError (errorMessageString
     (newError ''Failed to extract valid text response from vertex AI (non-streaming).''))"
  "\<not> isBlockingError (errorMessageString
     (newError ''Failed to extract valid text response from gemini AI (non-streaming).''))"
  "\<not> transientSignature (errorMessageString
     (newError ''Received empty or non-text response from vertex AI stream.''))"
  "\<not> transientSignature (errorMessageString
     (newError ''Received empty or non-text response from gemini AI stream.''))"
  "\<not> transientSignature (errorMessageString
     (newError ''Failed to extract valid text response from vertex AI (non-streaming).''))"
  "\<not> transientSignature (errorMessageString
     (newError ''Failed to extract valid text response from gemini AI (non-streaming).''))"
  by code_simp+

section \<open>Theorems on the retry loop of callGenerativeAI\<close>

text \<open>
  C1. When the attempt with index \<open>a\<close> is reached (every earlier attempt failed with a
  retryable error) and fails with an error classified as content-blocked, the call
  raises the blocked-content error at once: \<open>a + 1\<close> attempts in all, and no sleep beyond
  the \<open>a\<close> sleeps of the earlier retries, however many attempts remain. For \<open>a = 0\<close>
  the call makes one attempt and never sleeps.
\<close>

theorem content_blocked_is_never_retried:
  assumes "a \<le> maxRetries cfg"
    and "\<forall>i<a. \<exists>e'. runAttempt cfg tools s i = Inl e' \<and> isRetryable (errorMessageString e')"
    and "runAttempt cfg tools s a = Inl e"
    and "isBlockingError (errorMessageString e)"
  shows "callGenerativeAI cfg tools s random =
           \<lparr>outcome = Inl (McpError InternalError (blockedMessage (provider cfg) e)),
            sleeps = map (retryDelay cfg random) [0..<a], attempts = a + 1\<rparr>"
proof -
  let ?body = "runAttempt cfg tools s"
  have "retryLoop cfg ?body random 0 [] =
      retryLoop cfg ?body random (0 + a) ([] @ map (retryDelay cfg random) [0..<0 + a])"
    using assms(1,2) by (intro retryLoop_prefix) auto
  moreover have "\<not> isRetryable (errorMessageString e)"
    using assms(4) by (simp add: isRetryable_def)
  then have "retryLoop cfg ?body random a (map (retryDelay cfg random) [0..<a]) =
      \<lparr>outcome = Inl (McpError InternalError (finalErrorMessage (provider cfg) e)),
       sleeps = map (retryDelay cfg random) [0..<a], attempts = a + 1\<rparr>"
    using assms(1,3) by (simp add: retryLoop_final)
  moreover have "finalErrorMessage (provider cfg) e = blockedMessage (provider cfg) e"
    using assms(4) by (simp add: finalErrorMessage_def)
  ultimately show ?thesis by (simp add: callGenerativeAI_def)
qed

theorem content_blocked_is_never_retried_witness:
  "0 < maxRetries (exampleConfig Gemini True) \<and>
   runAttempt (exampleConfig Gemini True) None (failingSdk ''Response was blocked due to SAFETY'') 0 =
     Inl (newError ''Response was blocked due to SAFETY'') \<and>
   isBlockingError (errorMessageString (newError ''Response was blocked due to SAFETY'')) \<and>
   callGenerativeAI (exampleConfig Gemini True) None
       (failingSdk ''Response was blocked due to SAFETY'') (\<lambda>n. 0) =
     \<lparr>outcome = Inl (McpError InternalError
        ''Content generation blocked by gemini safety filters. (Response was blocked due to SAFETY)''),
      sleeps = [], attempts = 1\<rparr>"
proof -
  let ?cfg = "exampleConfig Gemini True"
  let ?s = "failingSdk ''Response was blocked due to SAFETY''"
  let ?e = "newError ''Response was blocked due to SAFETY''"
  have a: "0 \<le> maxRetries ?cfg" by simp
  have a': "0 < maxRetries ?cfg" by code_simp
  have p: "\<forall>i<0::nat. \<exists>e'. runAttempt ?cfg None ?s i = Inl e' \<and> isRetryable (errorMessageString e')"
    by simp
  have r: "runAttempt ?cfg None ?s 0 = Inl ?e"
    by code_simp
  have b: "isBlockingError (errorMessageString ?e)"
    by code_simp
  have m: "blockedMessage (provider ?cfg) ?e =
      ''Content generation blocked by gemini safety filters. (Response was blocked due to SAFETY)''"
    by code_simp
  have "callGenerativeAI ?cfg None ?s (\<lambda>n. 0) =
      \<lparr>outcome = Inl (McpError InternalError (blockedMessage (provider ?cfg) ?e)),
       sleeps = map (retryDelay ?cfg (\<lambda>n. 0)) [0..<0], attempts = 0 + 1\<rparr>"
    by (rule content_blocked_is_never_retried [OF a p r b])
  then show ?thesis using a' r b by (simp add: m)
qed

text \<open>
  C3. No call makes more than \<open>maxRetries + 1\<close> attempts. When every attempt fails with
  a retryable error, the call makes exactly \<open>maxRetries + 1\<close> attempts (indices 0 to
  \<open>maxRetries\<close>), sleeps \<open>maxRetries\<close> times in between, and raises the final error built
  from the error of the last attempt.
\<close>

theorem retryable_failures_exhaust_attempts:
  "attempts (callGenerativeAI cfg tools s random) \<le> maxRetries cfg + 1 \<and>
   ((\<forall>a\<le>maxRetries cfg.
       \<exists>e. runAttempt cfg tools s a = Inl e \<and> isRetryable (errorMessageString e)) \<longrightarrow>
    (\<exists>e. runAttempt cfg tools s (maxRetries cfg) = Inl e \<and>
         callGenerativeAI cfg tools s random =
           \<lparr>outcome = Inl (McpError InternalError (finalErrorMessage (provider cfg) e)),
            sleeps = map (retryDelay cfg random) [0..<maxRetries cfg],
            attempts = maxRetries cfg + 1\<rparr>))"
proof (intro conjI impI)
  show "attempts (callGenerativeAI cfg tools s random) \<le> maxRetries cfg + 1"
    using retryLoop_attempts_bound [of cfg "runAttempt cfg tools s" random 0 "[]"]
    by (simp add: callGenerativeAI_def)
next
  assume all: "\<forall>a\<le>maxRetries cfg.
      \<exists>e. runAttempt cfg tools s a = Inl e \<and> isRetryable (errorMessageString e)"
  then obtain e where e: "runAttempt cfg tools s (maxRetries cfg) = Inl e" by auto
  have earlier: "\<forall>i<maxRetries cfg.
      \<exists>e'. runAttempt cfg tools s i = Inl e' \<and> isRetryable (errorMessageString e')"
    using all by auto
  have "callGenerativeAI cfg tools s random =
      \<lparr>outcome = Inl (McpError InternalError (finalErrorMessage (provider cfg) e)),
       sleeps = map (retryDelay cfg random) [0..<maxRetries cfg],
       attempts = maxRetries cfg + 1\<rparr>"
    using earlier e by (intro call_ends_at_final_error) auto
  then show "\<exists>e. runAttempt cfg tools s (maxRetries cfg) = Inl e \<and>
      callGenerativeAI cfg tools s random =
        \<lparr>outcome = Inl (McpError InternalError (finalErrorMessage (provider cfg) e)),
         sleeps = map (retryDelay cfg random) [0..<maxRetries cfg],
         attempts = maxRetries cfg + 1\<rparr>"
    using e by blast
qed

theorem retryable_failures_exhaust_attempts_witness:
  "maxRetries (exampleConfig Vertex False) = 3 \<and>
   isRetryable (errorMessageString (newError ''503 Service Unavailable'')) \<and>
   outcome (callGenerativeAI (exampleConfig Vertex False) None
      (failingSdk ''503 Service Unavailable'') (\<lambda>n. 0)) =
     Inl (McpError InternalError ''vertex AI API error: 503 Service Unavailable (Status: 503)'') \<and>
   sleeps (callGenerativeAI (exampleConfig Vertex False) None
      (failingSdk ''503 Service Unavailable'') (\<lambda>n. 0)) =
     [Finite 1000, Finite 2000, Finite 4000] \<and>
   attempts (callGenerativeAI (exampleConfig Vertex False) None
      (failingSdk ''503 Service Unavailable'') (\<lambda>n. 0)) = 4"
proof -
  let ?cfg = "exampleConfig Vertex False"
  let ?s = "failingSdk ''503 Service Unavailable''"
  let ?e = "newError ''503 Service Unavailable''"
  have n: "maxRetries ?cfg = 3" by code_simp
  have p: "provider ?cfg = Vertex" by code_simp
  have r: "runAttempt ?cfg None ?s a = Inl ?e" for a
    by (simp add: runAttempt_def exampleConfig_def failingSdk_def nonStreamVertex_def)
  have b: "isRetryable (errorMessageString ?e)" by code_simp
  have m: "finalErrorMessage Vertex ?e =
      ''vertex AI API error: 503 Service Unavailable (Status: 503)''"
    by code_simp
  have d: "map (retryDelay ?cfg (\<lambda>n. 0)) [0..<3] = [Finite 1000, Finite 2000, Finite 4000]"
    by (simp add: number_eval exampleConfig_def upt_rec)
  have "\<forall>a\<le>maxRetries ?cfg.
      \<exists>e. runAttempt ?cfg None ?s a = Inl e \<and> isRetryable (errorMessageString e)"
    using r b by blast
  then have "\<exists>e. runAttempt ?cfg None ?s (maxRetries ?cfg) = Inl e \<and>
      callGenerativeAI ?cfg None ?s (\<lambda>n. 0) =
        \<lparr>outcome = Inl (McpError InternalError (finalErrorMessage (provider ?cfg) e)),
         sleeps = map (retryDelay ?cfg (\<lambda>n. 0)) [0..<maxRetries ?cfg],
         attempts = maxRetries ?cfg + 1\<rparr>"
    using retryable_failures_exhaust_attempts [of ?cfg None ?s "\<lambda>n. 0"] by blast
  then have "callGenerativeAI ?cfg None ?s (\<lambda>n. 0) =
      \<lparr>outcome = Inl (McpError InternalError (finalErrorMessage Vertex ?e)),
       sleeps = map (retryDelay ?cfg (\<lambda>n. 0)) [0..<3], attempts = 3 + 1\<rparr>"
    unfolding r n p by simp
  then show ?thesis using n b by (simp add: m d)
qed

text \<open>
  C4 as stated fails in its upper bound: the delay is computed in double precision, and
  rounding can bring it up to \<open>retryDelayMs * 2^attempt + 500\<close> or beyond. With the
  defaults (1000 ms, three retries), one 503 failure and \<open>Math.random() = 1 - 2^-52\<close>
  the only sleep lasts exactly 1500 ms, which is not less than 1000 + 500. For a base
  delay of \<open>2^60\<close> ms the delay is \<open>2^60 + 512\<close>, and for a base delay of 0 at attempt
  1024 it is NaN.
\<close>

theorem backoff_strict_upper_bound_counterexample:
  "(0::real) \<le> 1 - 1 / 2 ^ 52 \<and> (1::real) - 1 / 2 ^ 52 < 1 \<and>
   isRetryable (errorMessageString (newError ''503 Service Unavailable'')) \<and>
   callGenerativeAI (exampleConfig Vertex False) None
      (flakySdk 1 ''503 Service Unavailable'' [] (textResponse ''Hello''))
      (\<lambda>n. 1 - 1 / 2 ^ 52) =
     \<lparr>outcome = Inr ''Hello'', sleeps = [Finite 1500], attempts = 2\<rparr> \<and>
   \<not> (1500::real) < real (retryDelayMs (exampleConfig Vertex False)) * 2 ^ 0 + 500 \<and>
   retryDelay \<lparr>provider = Vertex, useStreaming = False, maxRetries = 3,
               retryDelayMs = 2 ^ 60\<rparr> (\<lambda>n. 999 / 1000) 0 = Finite (2 ^ 60 + 512) \<and>
   retryDelay \<lparr>provider = Vertex, useStreaming = False, maxRetries = 2000,
               retryDelayMs = 0\<rparr> (\<lambda>n. 0) 1024 = NaN"
proof -
  let ?cfg = "exampleConfig Vertex False"
  let ?s = "flakySdk 1 ''503 Service Unavailable'' [] (textResponse ''Hello'')"
  let ?rnd = "\<lambda>n::nat. (1::real) - 1 / 2 ^ 52"
  have rnd: "(0::real) \<le> 1 - 1 / 2 ^ 52 \<and> (1::real) - 1 / 2 ^ 52 < 1" by simp
  have b: "isRetryable (errorMessageString (newError ''503 Service Unavailable''))"
    by code_simp
  have n: "1 \<le> maxRetries ?cfg" by code_simp
  have r0: "runAttempt ?cfg None ?s 0 = Inl (newError ''503 Service Unavailable'')"
    by code_simp
  have r1: "runAttempt ?cfg None ?s 1 = Inr ''Hello''" by code_simp
  have pre: "\<forall>a<1. \<exists>e. runAttempt ?cfg None ?s a = Inl e \<and> isRetryable (errorMessageString e)"
    using r0 b by simp
  have d: "map (retryDelay ?cfg ?rnd) [0..<1] = [Finite 1500]"
    by (simp add: number_eval exampleConfig_def)
  have c: "callGenerativeAI ?cfg None ?s ?rnd =
      \<lparr>outcome = Inr ''Hello'', sleeps = [Finite 1500], attempts = 2\<rparr>"
    using call_returns_after_retries [OF n pre r1, of ?rnd] unfolding d by simp
  have u: "\<not> (1500::real) < real (retryDelayMs ?cfg) * 2 ^ 0 + 500"
    by (simp add: exampleConfig_def)
  have big: "retryDelay \<lparr>provider = Vertex, useStreaming = False, maxRetries = 3,
               retryDelayMs = 2 ^ 60\<rparr> (\<lambda>n. 999 / 1000) 0 = Finite (2 ^ 60 + 512)"
    by (simp add: number_eval)
  have nan: "retryDelay \<lparr>provider = Vertex, useStreaming = False, maxRetries = 2000,
               retryDelayMs = 0\<rparr> (\<lambda>n. 0) 1024 = NaN"
    by (simp add: number_eval)
  show ?thesis using rnd b c u big nan by blast
qed

text \<open>
  C4, amended. When the first \<open>k\<close> attempts fail with a retryable error and attempt \<open>k\<close>
  returns a text (\<open>k\<close> at most \<open>maxRetries\<close>), the call returns that text after \<open>k + 1\<close>
  attempts and exactly \<open>k\<close> sleeps, and the sleep after attempt \<open>a\<close> is the delay the
  code computes in double precision. With \<open>Math.random()\<close> in [0, 1), \<open>a\<close> at most 1023
  and \<open>retryDelayMs * 2^a + 500\<close> below \<open>2^53\<close>, that delay is finite, at least
  \<open>retryDelayMs * 2^a\<close> and at most (not less than) \<open>retryDelayMs * 2^a + 500\<close>
  milliseconds. The older client sleeps \<open>retryDelayMs * 2^a\<close> without jitter, exactly so
  when \<open>a\<close> is at most 1023 and the product is below \<open>2^53\<close>.
\<close>

theorem retries_then_success_backoff:
  "(k \<le> maxRetries cfg \<and>
    (\<forall>a<k. \<exists>e. runAttempt cfg tools s a = Inl e \<and> isRetryable (errorMessageString e)) \<and>
    runAttempt cfg tools s k = Inr t \<and>
    (\<forall>n. 0 \<le> random n \<and> random n < 1) \<longrightarrow>
      outcome (callGenerativeAI cfg tools s random) = Inr t \<and>
      attempts (callGenerativeAI cfg tools s random) = k + 1 \<and>
      length (sleeps (callGenerativeAI cfg tools s random)) = k \<and>
      (\<forall>a<k. sleeps (callGenerativeAI cfg tools s random) ! a = retryDelay cfg random a) \<and>
      (\<forall>a<k. a \<le> 1023 \<and> real (retryDelayMs cfg) * 2 ^ a + 500 < 2 ^ 53 \<longrightarrow>
         (\<exists>d. sleeps (callGenerativeAI cfg tools s random) ! a = Finite d \<and>
              real (retryDelayMs cfg) * 2 ^ a \<le> d \<and>
              d \<le> real (retryDelayMs cfg) * 2 ^ a + 500))) \<and>
   (k \<le> n \<and>
    (\<forall>a<k. \<exists>e. runAttempt_vertex st tools s a = Inl e \<and>
              isRetryable_vertex (errorMessageString_vertex e)) \<and>
    runAttempt_vertex st tools s k = Inr t \<longrightarrow>
      outcome (callVertexAIWithOptionalFunctionCalling tools st n d s) = Inr t \<and>
      attempts (callVertexAIWithOptionalFunctionCalling tools st n d s) = k + 1 \<and>
      length (sleeps (callVertexAIWithOptionalFunctionCalling tools st n d s)) = k \<and>
      (\<forall>a<k. sleeps (callVertexAIWithOptionalFunctionCalling tools st n d s) ! a =
                retryDelay_vertex d a) \<and>
      (\<forall>a<k. a \<le> 1023 \<and> real d * 2 ^ a < 2 ^ 53 \<longrightarrow>
         sleeps (callVertexAIWithOptionalFunctionCalling tools st n d s) ! a =
           Finite (real d * 2 ^ a)))"
proof (intro conjI impI)
  assume h: "k \<le> maxRetries cfg \<and>
    (\<forall>a<k. \<exists>e. runAttempt cfg tools s a = Inl e \<and> isRetryable (errorMessageString e)) \<and>
    runAttempt cfg tools s k = Inr t \<and> (\<forall>n. 0 \<le> random n \<and> random n < 1)"
  then have c: "callGenerativeAI cfg tools s random =
      \<lparr>outcome = Inr t, sleeps = map (retryDelay cfg random) [0..<k], attempts = k + 1\<rparr>"
    by (intro call_returns_after_retries) auto
  show "outcome (callGenerativeAI cfg tools s random) = Inr t" by (simp add: c)
  show "attempts (callGenerativeAI cfg tools s random) = k + 1" by (simp add: c)
  show "length (sleeps (callGenerativeAI cfg tools s random)) = k" by (simp add: c)
  show "\<forall>a<k. sleeps (callGenerativeAI cfg tools s random) ! a = retryDelay cfg random a"
    by (simp add: c)
  show "\<forall>a<k. a \<le> 1023 \<and> real (retryDelayMs cfg) * 2 ^ a + 500 < 2 ^ 53 \<longrightarrow>
      (\<exists>d. sleeps (callGenerativeAI cfg tools s random) ! a = Finite d \<and>
           real (retryDelayMs cfg) * 2 ^ a \<le> d \<and>
           d \<le> real (retryDelayMs cfg) * 2 ^ a + 500)"
  proof (intro allI impI)
    fix a
    assume a: "a < k" and r: "a \<le> 1023 \<and> real (retryDelayMs cfg) * 2 ^ a + 500 < 2 ^ 53"
    have "\<exists>d. retryDelay cfg random a = Finite d \<and>
        real (retryDelayMs cfg) * 2 ^ a \<le> d \<and> d \<le> real (retryDelayMs cfg) * 2 ^ a + 500"
      using h r by (intro retryDelay_bounds) simp_all
    then show "\<exists>d. sleeps (callGenerativeAI cfg tools s random) ! a = Finite d \<and>
        real (retryDelayMs cfg) * 2 ^ a \<le> d \<and> d \<le> real (retryDelayMs cfg) * 2 ^ a + 500"
      using a by (simp add: c)
  qed
next
  assume h: "k \<le> n \<and>
    (\<forall>a<k. \<exists>e. runAttempt_vertex st tools s a = Inl e \<and>
              isRetryable_vertex (errorMessageString_vertex e)) \<and>
    runAttempt_vertex st tools s k = Inr t"
  then have c: "callVertexAIWithOptionalFunctionCalling tools st n d s =
      \<lparr>outcome = Inr t, sleeps = map (retryDelay_vertex d) [0..<k], attempts = k + 1\<rparr>"
    by (intro call_vertex_returns_after_retries) auto
  show "outcome (callVertexAIWithOptionalFunctionCalling tools st n d s) = Inr t"
    by (simp add: c)
  show "attempts (callVertexAIWithOptionalFunctionCalling tools st n d s) = k + 1"
    by (simp add: c)
  show "length (sleeps (callVertexAIWithOptionalFunctionCalling tools st n d s)) = k"
    by (simp add: c)
  show "\<forall>a<k. sleeps (callVertexAIWithOptionalFunctionCalling tools st n d s) ! a =
      retryDelay_vertex d a"
    by (simp add: c)
  show "\<forall>a<k. a \<le> 1023 \<and> real d * 2 ^ a < 2 ^ 53 \<longrightarrow>
      sleeps (callVertexAIWithOptionalFunctionCalling tools st n d s) ! a =
        Finite (real d * 2 ^ a)"
    using retryDelay_vertex_exact [of _ d] by (simp add: c)
qed

theorem retries_then_success_backoff_witness:
  "runAttempt (exampleConfig Vertex True) None
      (flakySdk 2 ''503 Service Unavailable'' [textResponse ''Hel'', textResponse ''lo'']
         (Response None (Inl (newError ''no text'')) None None)) 2 =
     Inr ''Hello'' \<and>
   callGenerativeAI (exampleConfig Vertex True) None
      (flakySdk 2 ''503 Service Unavailable'' [textResponse ''Hel'', textResponse ''lo'']
         (Response None (Inl (newError ''no text'')) None None))
      (\<lambda>n. 1 / 2) =
     \<lparr>outcome = Inr ''Hello'', sleeps = [Finite 1250, Finite 2250], attempts = 3\<rparr> \<and>
   (\<exists>d0 d1.
      sleeps (callGenerativeAI (exampleConfig Vertex True) None
        (flakySdk 2 ''503 Service Unavailable'' [textResponse ''Hel'', textResponse ''lo'']
           (Response None (Inl (newError ''no text'')) None None))
        (\<lambda>n. 1 / 2)) = [Finite d0, Finite d1] \<and>
      1000 \<le> d0 \<and> d0 \<le> 1500 \<and> 2000 \<le> d1 \<and> d1 \<le> 2500)"
proof -
  let ?cfg = "exampleConfig Vertex True"
  let ?s = "flakySdk 2 ''503 Service Unavailable'' [textResponse ''Hel'', textResponse ''lo'']
              (Response None (Inl (newError ''no text'')) None None)"
  let ?e = "newError ''503 Service Unavailable''"
  let ?c = "callGenerativeAI ?cfg None ?s (\<lambda>n. 1 / 2)"
  have n: "2 \<le> maxRetries ?cfg" by code_simp
  have dl: "real (retryDelayMs ?cfg) = 1000" by (simp add: exampleConfig_def)
  have r0: "runAttempt ?cfg None ?s 0 = Inl ?e" by code_simp
  have r1: "runAttempt ?cfg None ?s 1 = Inl ?e" by code_simp
  have r2: "runAttempt ?cfg None ?s 2 = Inr ''Hello''" by code_simp
  have b: "isRetryable (errorMessageString ?e)" by code_simp
  have d0: "retryDelay ?cfg (\<lambda>n. 1 / 2) 0 = Finite 1250"
    by (simp add: number_eval exampleConfig_def)
  have d1: "retryDelay ?cfg (\<lambda>n. 1 / 2) 1 = Finite 2250"
    by (simp add: number_eval exampleConfig_def)
  have pre: "\<forall>a<2. \<exists>e. runAttempt ?cfg None ?s a = Inl e \<and> isRetryable (errorMessageString e)"
    using r0 r1 b by (auto simp: less_Suc_eq numeral_2_eq_2)
  have rnd: "\<forall>n::nat. (0::real) \<le> 1 / 2 \<and> (1::real) / 2 < 1" by simp
  have res: "outcome ?c = Inr ''Hello'' \<and> attempts ?c = 2 + 1 \<and> length (sleeps ?c) = 2 \<and>
      (\<forall>a<2. sleeps ?c ! a = retryDelay ?cfg (\<lambda>n. 1 / 2) a) \<and>
      (\<forall>a<2. a \<le> 1023 \<and> real (retryDelayMs ?cfg) * 2 ^ a + 500 < 2 ^ 53 \<longrightarrow>
         (\<exists>d. sleeps ?c ! a = Finite d \<and> real (retryDelayMs ?cfg) * 2 ^ a \<le> d \<and>
              d \<le> real (retryDelayMs ?cfg) * 2 ^ a + 500))"
    using retries_then_success_backoff
      [where k = 2 and cfg = ?cfg and tools = None and s = ?s and t = "''Hello''"
         and random = "\<lambda>n. 1 / 2"] n pre r2 rnd
    by blast
  then have len: "length (sleeps ?c) = 2" by simp
  from res have e0: "\<exists>d. sleeps ?c ! 0 = Finite d \<and> 1000 \<le> d \<and> d \<le> 1500"
    unfolding dl by (elim conjE allE [of _ 0]) simp
  from res have e1: "\<exists>d. sleeps ?c ! 1 = Finite d \<and> 2000 \<le> d \<and> d \<le> 2500"
    unfolding dl by (elim conjE allE [of _ 1]) simp
  from res have s0: "sleeps ?c ! 0 = Finite 1250" using d0 by simp
  from res have s1: "sleeps ?c ! 1 = Finite 2250" using d1 by simp
  have list: "sleeps ?c = [sleeps ?c ! 0, sleeps ?c ! 1]"
    using len by (cases "sleeps ?c"; cases "tl (sleeps ?c)") auto
  have full: "?c = \<lparr>outcome = Inr ''Hello'', sleeps = [Finite 1250, Finite 2250], attempts = 3\<rparr>"
    using res list s0 s1 by (cases ?c) simp
  obtain x0 where x0: "sleeps ?c ! 0 = Finite x0" "1000 \<le> x0" "x0 \<le> 1500" using e0 by blast
  obtain x1 where x1: "sleeps ?c ! 1 = Finite x1" "2000 \<le> x1" "x1 \<le> 2500" using e1 by blast
  have "sleeps ?c = [Finite x0, Finite x1]" using list x0(1) x1(1) by simp
  then have "\<exists>d0 d1. sleeps ?c = [Finite d0, Finite d1] \<and>
      1000 \<le> d0 \<and> d0 \<le> 1500 \<and> 2000 \<le> d1 \<and> d1 \<le> 2500"
    using x0 x1 by blast
  then show ?thesis using r2 full by blast
qed

text \<open>
  C2 as stated fails: a failure that is neither content-blocked nor a transient fault is
  not retried. Here the provider answers without any text, the attempt raises
  "Failed to extract valid text response", and with three retries left the call raises
  at once, after one attempt and no sleep. The older client does the same.
\<close>

theorem fatal_failure_retried_counterexample:
  "maxRetries (exampleConfig Vertex False) = 3 \<and>
   runAttempt (exampleConfig Vertex False) None
       (flakySdk 0 [] [] (Response None (Inl (newError ''no text'')) None None)) 0 =
     Inl (newError ''Failed to extract valid text response from vertex AI (non-streaming).'') \<and>
   \<not> isBlockingError (errorMessageString
       (newError ''Failed to extract valid text response from vertex AI (non-streaming).'')) \<and>
   \<not> transientSignature (errorMessageString
       (newError ''Failed to extract valid text response from vertex AI (non-streaming).'')) \<and>
   callGenerativeAI (exampleConfig Vertex False) None
       (flakySdk 0 [] [] (Response None (Inl (newError ''no text'')) None None)) (\<lambda>n. 0) =
     \<lparr>outcome = Inl (McpError InternalError
        ''vertex AI API error: Failed to extract valid text response from vertex AI (non-streaming).''),
      sleeps = [], attempts = 1\<rparr> \<and>
   callVertexAIWithOptionalFunctionCalling None False 3 1000
       (flakySdk 0 [] [] (Response None (Inl (newError ''no text'')) None None)) =
     \<lparr>outcome = Inl (McpError InternalError
        ''Vertex AI API error: Failed to extract valid text response from Vertex AI (non-streaming).''),
      sleeps = [], attempts = 1\<rparr>"
proof -
  have "maxRetries (exampleConfig Vertex False) = 3" by code_simp
  moreover have "runAttempt (exampleConfig Vertex False) None
       (flakySdk 0 [] [] (Response None (Inl (newError ''no text'')) None None)) 0 =
     Inl (newError ''Failed to extract valid text response from vertex AI (non-streaming).'')"
    by code_simp
  moreover have "\<not> isBlockingError (errorMessageString
       (newError ''Failed to extract valid text response from vertex AI (non-streaming).''))"
    by code_simp
  moreover have "\<not> transientSignature (errorMessageString
       (newError ''Failed to extract valid text response from vertex AI (non-streaming).''))"
    by code_simp
  moreover have "callGenerativeAI (exampleConfig Vertex False) None
       (flakySdk 0 [] [] (Response None (Inl (newError ''no text'')) None None)) (\<lambda>n. 0) =
     \<lparr>outcome = Inl (McpError InternalError
        ''vertex AI API error: Failed to extract valid text response from vertex AI (non-streaming).''),
      sleeps = [], attempts = 1\<rparr>"
    by code_simp
  moreover have "callVertexAIWithOptionalFunctionCalling None False 3 1000
       (flakySdk 0 [] [] (Response None (Inl (newError ''no text'')) None None)) =
     \<lparr>outcome = Inl (McpError InternalError
        ''Vertex AI API error: Failed to extract valid text response from Vertex AI (non-streaming).''),
      sleeps = [], attempts = 1\<rparr>"
    by code_simp
  ultimately show ?thesis by blast
qed

text \<open>
  C2, amended. When the attempt with index \<open>a\<close> is reached and fails with an error that
  is neither content-blocked nor carries a transient-fault signature, the call is not
  retried: it raises "<provider> AI API error: <message>" at once, after \<open>a + 1\<close>
  attempts and with no sleep beyond those of the earlier retries, whatever number of
  attempts remains. The older client behaves alike for an error that is neither blocked
  nor carries 429, 500 or 503. Only errors with a transient-fault signature are retried.
\<close>

theorem fatal_failure_is_not_retried:
  "(a \<le> maxRetries cfg \<and>
    (\<forall>i<a. \<exists>e'. runAttempt cfg tools s i = Inl e' \<and> isRetryable (errorMessageString e')) \<and>
    runAttempt cfg tools s a = Inl e \<and>
    \<not> isBlockingError (errorMessageString e) \<and>
    \<not> transientSignature (errorMessageString e) \<longrightarrow>
      callGenerativeAI cfg tools s random =
        \<lparr>outcome = Inl (McpError InternalError
           (providerName (provider cfg) @ '' AI API error: '' @
            orElse (message e) ''Unknown error'')),
         sleeps = map (retryDelay cfg random) [0..<a], attempts = a + 1\<rparr>) \<and>
   (a \<le> n \<and>
    (\<forall>i<a. \<exists>e'. runAttempt_vertex st tools s i = Inl e' \<and>
              isRetryable_vertex (errorMessageString_vertex e')) \<and>
    runAttempt_vertex st tools s a = Inl e \<and>
    \<not> includes_str (errorMessageString_vertex e) ''content generation blocked'' \<and>
    \<not> includes_str (errorMessageString_vertex e) ''429'' \<and>
    \<not> includes_str (errorMessageString_vertex e) ''500'' \<and>
    \<not> includes_str (errorMessageString_vertex e) ''503'' \<longrightarrow>
      callVertexAIWithOptionalFunctionCalling tools st n d s =
        \<lparr>outcome = Inl (McpError InternalError
           (''Vertex AI API error: '' @ orElse (message e) ''Unknown error'')),
         sleeps = map (retryDelay_vertex d) [0..<a], attempts = a + 1\<rparr>)"
proof (intro conjI impI)
  assume h: "a \<le> maxRetries cfg \<and>
    (\<forall>i<a. \<exists>e'. runAttempt cfg tools s i = Inl e' \<and> isRetryable (errorMessageString e')) \<and>
    runAttempt cfg tools s a = Inl e \<and>
    \<not> isBlockingError (errorMessageString e) \<and>
    \<not> transientSignature (errorMessageString e)"
  then have "\<not> isRetryable (errorMessageString e) \<or> a = maxRetries cfg"
    by (simp add: isRetryable_def)
  then have "callGenerativeAI cfg tools s random =
      \<lparr>outcome = Inl (McpError InternalError (finalErrorMessage (provider cfg) e)),
       sleeps = map (retryDelay cfg random) [0..<a], attempts = a + 1\<rparr>"
    using h by (intro call_ends_at_final_error) auto
  then show "callGenerativeAI cfg tools s random =
      \<lparr>outcome = Inl (McpError InternalError
         (providerName (provider cfg) @ '' AI API error: '' @
          orElse (message e) ''Unknown error'')),
       sleeps = map (retryDelay cfg random) [0..<a], attempts = a + 1\<rparr>"
    using h fatal_message [of e "provider cfg"] by simp
next
  assume h: "a \<le> n \<and>
    (\<forall>i<a. \<exists>e'. runAttempt_vertex st tools s i = Inl e' \<and>
              isRetryable_vertex (errorMessageString_vertex e')) \<and>
    runAttempt_vertex st tools s a = Inl e \<and>
    \<not> includes_str (errorMessageString_vertex e) ''content generation blocked'' \<and>
    \<not> includes_str (errorMessageString_vertex e) ''429'' \<and>
    \<not> includes_str (errorMessageString_vertex e) ''500'' \<and>
    \<not> includes_str (errorMessageString_vertex e) ''503''"
  then have "\<not> isRetryable_vertex (errorMessageString_vertex e) \<or> a = n"
    by (simp add: isRetryable_vertex_def)
  then have "callVertexAIWithOptionalFunctionCalling tools st n d s =
      \<lparr>outcome = Inl (McpError InternalError (errorMessage_vertex e)),
       sleeps = map (retryDelay_vertex d) [0..<a], attempts = a + 1\<rparr>"
    using h by (intro call_vertex_ends_at_final_error) auto
  then show "callVertexAIWithOptionalFunctionCalling tools st n d s =
      \<lparr>outcome = Inl (McpError InternalError
         (''Vertex AI API error: '' @ orElse (message e) ''Unknown error'')),
       sleeps = map (retryDelay_vertex d) [0..<a], attempts = a + 1\<rparr>"
    using h fatal_message_vertex [of e] by simp
qed

theorem fatal_failure_is_not_retried_witness:
  "0 < maxRetries (exampleConfig Gemini True) \<and>
   runAttempt (exampleConfig Gemini True) None (flakySdk 0 [] [] (textResponse [])) 0 =
     Inl (newError ''Received empty or non-text response from gemini AI stream.'') \<and>
   callGenerativeAI (exampleConfig Gemini True) None (flakySdk 0 [] [] (textResponse []))
       (\<lambda>n. 0) =
     \<lparr>outcome = Inl (McpError InternalError
        ''gemini AI API error: Received empty or non-text response from gemini AI stream.''),
      sleeps = [], attempts = 1\<rparr> \<and>
   runAttempt_vertex True None (flakySdk 0 [] [] (textResponse [])) 0 =
     Inl (newError ''Received empty or non-text response from Vertex AI stream.'') \<and>
   callVertexAIWithOptionalFunctionCalling None True 3 1000 (flakySdk 0 [] [] (textResponse [])) =
     \<lparr>outcome = Inl (McpError InternalError
        ''Vertex AI API error: Received empty or non-text response from Vertex AI stream.''),
      sleeps = [], attempts = 1\<rparr>"
proof -
  let ?cfg = "exampleConfig Gemini True"
  let ?s = "flakySdk 0 [] [] (textResponse [])"
  let ?e = "newError ''Received empty or non-text response from gemini AI stream.''"
  let ?f = "newError ''Received empty or non-text response from Vertex AI stream.''"
  have n: "0 < maxRetries ?cfg" by code_simp
  have p: "providerName (provider ?cfg) = ''gemini''" by code_simp
  have r: "runAttempt ?cfg None ?s 0 = Inl ?e" by code_simp
  have b: "\<not> isBlockingError (errorMessageString ?e)" by code_simp
  have t: "\<not> transientSignature (errorMessageString ?e)" by code_simp
  have me: "orElse (message ?e) ''Unknown error'' =
      ''Received empty or non-text response from gemini AI stream.''" by code_simp
  have rv: "runAttempt_vertex True None ?s 0 = Inl ?f" by code_simp
  have bv: "\<not> includes_str (errorMessageString_vertex ?f) ''content generation blocked''"
    by code_simp
  have tv: "\<not> includes_str (errorMessageString_vertex ?f) ''429''"
    "\<not> includes_str (errorMessageString_vertex ?f) ''500''"
    "\<not> includes_str (errorMessageString_vertex ?f) ''503''"
    by code_simp+
  have mf: "orElse (message ?f) ''Unknown error'' =
      ''Received empty or non-text response from Vertex AI stream.''" by code_simp
  have "callGenerativeAI ?cfg None ?s (\<lambda>n. 0) =
      \<lparr>outcome = Inl (McpError InternalError
         (providerName (provider ?cfg) @ '' AI API error: '' @
          orElse (message ?e) ''Unknown error'')),
       sleeps = map (retryDelay ?cfg (\<lambda>n. 0)) [0..<0], attempts = 0 + 1\<rparr>"
    using fatal_failure_is_not_retried
        [where a = 0 and cfg = ?cfg and tools = None and s = ?s and e = ?e and random = "\<lambda>n. 0"]
      r b t by blast
  moreover have "callVertexAIWithOptionalFunctionCalling None True 3 1000 ?s =
      \<lparr>outcome = Inl (McpError InternalError
         (''Vertex AI API error: '' @ orElse (message ?f) ''Unknown error'')),
       sleeps = map (retryDelay_vertex 1000) [0..<0], attempts = 0 + 1\<rparr>"
    using fatal_failure_is_not_retried
        [where a = 0 and e = ?f and n = 3 and st = True and tools = None and s = ?s and d = 1000]
      rv bv tv by blast
  ultimately show ?thesis using n r rv unfolding p me mf by simp
qed

section \<open>Theorems on the two execution modes\<close>

lemma accumulateVertex_no_text:
  "\<forall>c\<in>set cs. partText c = None \<Longrightarrow> accumulateVertex acc cs = acc"
  by (induction cs arbitrary: acc) simp_all

lemma accumulateGemini_empty_text:
  "\<forall>c\<in>set cs. textMethod c = Inr [] \<Longrightarrow> accumulateGemini acc cs = Inr acc"
  by (induction cs arbitrary: acc) simp_all

lemma call_first_attempt_returns:
  assumes "runAttempt cfg tools s 0 = Inr t"
  shows "callGenerativeAI cfg tools s random = \<lparr>outcome = Inr t, sleeps = [], attempts = 1\<rparr>"
  using call_returns_after_retries [of 0 cfg tools s t random] assms by simp

lemma call_first_attempt_raises:
  assumes "runAttempt cfg tools s 0 = Inl e" and "\<not> isRetryable (errorMessageString e)"
  shows "callGenerativeAI cfg tools s random =
           \<lparr>outcome = Inl (McpError InternalError (finalErrorMessage (provider cfg) e)),
            sleeps = [], attempts = 1\<rparr>"
  using call_ends_at_final_error [of 0 cfg tools s e random] assms by simp

text \<open>
  C9. A call that returns, returns a non-empty text. In streaming mode, when the chunks
  gave no text, the text of the aggregated response is taken once; if that is empty as
  well the attempt raises "Received empty or non-text response" instead of returning.
\<close>

theorem successful_return_is_non_empty:
  "(outcome (callGenerativeAI cfg tools s random) = Inr t \<longrightarrow> t \<noteq> []) \<and>
   (useStreaming cfg \<and>
    generateContentStream s (modelInstance (provider cfg) tools)
        (requestTools (provider cfg) tools) a =
      Inr (StreamResult cs None (Inr (Some r))) \<and>
    (\<forall>c\<in>set cs. partText c = None \<and> textMethod c = Inr []) \<and>
    blockReason r = None \<and> finishReason r = None \<and>
    partText r = Some u \<and> textMethod r = Inr u \<longrightarrow>
      runAttempt cfg tools s a =
        (if u = []
         then Inl (newError (''Received empty or non-text response from '' @
                     providerName (provider cfg) @ '' AI stream.''))
         else Inr u))"
proof (intro conjI impI)
  assume "outcome (callGenerativeAI cfg tools s random) = Inr t"
  then have "\<exists>a. runAttempt cfg tools s a = Inr t"
    unfolding callGenerativeAI_def by (rule retryLoop_returns_attempt_text)
  then show "t \<noteq> []" using runAttempt_nonempty by blast
next
  assume h: "useStreaming cfg \<and>
    generateContentStream s (modelInstance (provider cfg) tools)
        (requestTools (provider cfg) tools) a =
      Inr (StreamResult cs None (Inr (Some r))) \<and>
    (\<forall>c\<in>set cs. partText c = None \<and> textMethod c = Inr []) \<and>
    blockReason r = None \<and> finishReason r = None \<and>
    partText r = Some u \<and> textMethod r = Inr u"
  have v: "accumulateVertex [] cs = []"
    using h by (intro accumulateVertex_no_text) simp
  have g: "accumulateGemini [] cs = Inr []"
    using h by (intro accumulateGemini_empty_text) simp
  show "runAttempt cfg tools s a =
      (if u = []
       then Inl (newError (''Received empty or non-text response from '' @
                   providerName (provider cfg) @ '' AI stream.''))
       else Inr u)"
  proof (cases "provider cfg")
    case Vertex
    then show ?thesis
      using h v
      by (simp add: runAttempt_def streamVertex_def finishStream_def vertexBlocked_def
          truthy_def Let_def)
  next
    case Gemini
    then show ?thesis
      using h g
      by (simp add: runAttempt_def streamGemini_def finishStream_def truthy_def Let_def)
  qed
qed

theorem successful_return_is_non_empty_witness:
  "outcome (callGenerativeAI (exampleConfig Vertex True) None
      (flakySdk 0 [] [Response None (Inr []) None None] (textResponse ''Hi'')) (\<lambda>n. 0)) =
     Inr ''Hi'' \<and>
   ''Hi'' \<noteq> [] \<and>
   runAttempt (exampleConfig Vertex True) None
      (flakySdk 0 [] [Response None (Inr []) None None] (textResponse ''Hi'')) 0 = Inr ''Hi'' \<and>
   runAttempt (exampleConfig Gemini True) None
      (flakySdk 0 [] [Response None (Inr []) None None] (textResponse [])) 0 =
     Inl (newError ''Received empty or non-text response from gemini AI stream.'')"
proof -
  let ?cfg = "exampleConfig Vertex True"
  let ?gcfg = "exampleConfig Gemini True"
  let ?cs = "[Response None (Inr []) None None]"
  let ?s = "flakySdk 0 [] ?cs (textResponse ''Hi'')"
  let ?s' = "flakySdk 0 [] ?cs (textResponse [])"
  have c: "outcome (callGenerativeAI ?cfg None ?s (\<lambda>n. 0)) = Inr ''Hi''" by code_simp
  have st: "useStreaming ?cfg" "useStreaming ?gcfg" by code_simp+
  have p: "providerName (provider ?gcfg) = ''gemini''" by code_simp
  have g: "generateContentStream ?s (modelInstance (provider ?cfg) None)
      (requestTools (provider ?cfg) None) 0 =
        Inr (StreamResult ?cs None (Inr (Some (textResponse ''Hi''))))"
    by code_simp
  have g': "generateContentStream ?s' (modelInstance (provider ?gcfg) None)
      (requestTools (provider ?gcfg) None) 0 =
        Inr (StreamResult ?cs None (Inr (Some (textResponse []))))"
    by code_simp
  have cs: "\<forall>c\<in>set ?cs. partText c = None \<and> textMethod c = Inr []" by simp
  have f: "blockReason (textResponse x) = None" "finishReason (textResponse x) = None"
    "partText (textResponse x) = Some x" "textMethod (textResponse x) = Inr x" for x
    by (simp_all add: textResponse_def)
  have "''Hi'' \<noteq> []"
    using successful_return_is_non_empty
      [where cfg = ?cfg and tools = None and s = ?s and random = "\<lambda>n. 0" and t = "''Hi''"] c
    by blast
  moreover have "runAttempt ?cfg None ?s 0 = (if ''Hi'' = []
      then Inl (newError (''Received empty or non-text response from '' @
                  providerName (provider ?cfg) @ '' AI stream.''))
      else Inr ''Hi'')"
    using successful_return_is_non_empty
      [where cfg = ?cfg and tools = None and s = ?s and a = 0 and cs = ?cs
         and r = "textResponse ''Hi''" and u = "''Hi''"] st(1) g cs f
    by blast
  moreover have "runAttempt ?gcfg None ?s' 0 = (if ([]::string) = []
      then Inl (newError (''Received empty or non-text response from '' @
                  providerName (provider ?gcfg) @ '' AI stream.''))
      else Inr [])"
    using successful_return_is_non_empty
      [where cfg = ?gcfg and tools = None and s = ?s' and a = 0 and cs = ?cs
         and r = "textResponse []" and u = "[]"] st(2) g' cs f
    by blast
  ultimately show ?thesis using c by (simp add: p)
qed

lemma single_attempt_of_text:
  assumes "partText whole = Some txt" and "textMethod whole = Inr txt"
    and "generateContent s (modelInstance (provider cfg) tools)
           (requestTools (provider cfg) tools) a = Inr whole"
    and "\<not> useStreaming cfg"
  shows "runAttempt cfg tools s a =
           (if provider cfg = Vertex then
              (if vertexBlocked (blockReason whole)
               then Inl (newError (''Vertex Content generation blocked. Reason: '' @
                           template (blockReason whole)))
               else if txt = []
               then Inl (newError
                      ''Failed to extract valid text response from vertex AI (non-streaming).'')
               else Inr txt)
            else
              (if truthy (blockReason whole)
               then Inl (newError (''Gemini Content generation blocked. Response Reason: '' @
                           template (blockReason whole)))
               else if finishReason whole = Some ''SAFETY''
               then Inl (newError
                      ''Gemini Content generation blocked. Response Finish Reason: SAFETY'')
               else if txt = []
               then Inl (newError
                      ''Failed to extract valid text response from gemini AI (non-streaming).'')
               else Inr txt))"
proof (cases "provider cfg")
  case Vertex
  then show ?thesis
    using assms
    by (simp add: runAttempt_def nonStreamVertex_def extractText_def providerName_def Let_def)
next
  case Gemini
  then show ?thesis
    using assms
    by (simp add: runAttempt_def nonStreamGemini_def extractText_def providerName_def Let_def)
qed

lemma empty_errors_not_retryable:
  "\<not> isRetryable (errorMessageString (newError
      (''Received empty or non-text response from '' @ providerName p @ '' AI stream.'')))"
  "\<not> isRetryable (errorMessageString (newError
      (''Failed to extract valid text response from '' @ providerName p @
       '' AI (non-streaming).'')))"
  using fixed_errors_classified
  by (cases p; simp add: providerName_def isRetryable_def)+

lemma stream_attempt_blocked:
  assumes "generateContentStream s (modelInstance (provider cfg) tools)
             (requestTools (provider cfg) tools) a =
           Inr (StreamResult cs None (Inr agg))"
    and "map textMethod cs = map Inr ts"
    and "(case agg of None \<Rightarrow> None | Some r \<Rightarrow> blockReason r) = blockReason whole"
    and "(case agg of None \<Rightarrow> None | Some r \<Rightarrow> finishReason r) = finishReason whole"
    and "useStreaming cfg" and "blockSignal (provider cfg) whole"
  shows "\<exists>e. runAttempt cfg tools s a = Inl e \<and> isBlockingError (errorMessageString e)"
proof (cases "provider cfg")
  case Vertex
  then have "runAttempt cfg tools s a =
      Inl (newError (''Vertex Content generation blocked. Reason: '' @
             template (blockReason whole)))"
    using assms(1,3,5,6) by (simp add: runAttempt_def streamVertex_def blockSignal_def Let_def)
  then show ?thesis using vertex_block_error_blocking by simp
next
  case Gemini
  have acc: "accumulateGemini [] cs = Inr (concat ts)"
    using accumulateGemini_deltas [OF assms(2), of "[]"] by simp
  show ?thesis
  proof (cases "truthy (blockReason whole)")
    case True
    then have "runAttempt cfg tools s a =
        Inl (newError (''Gemini Content generation blocked. Aggregated Reason: '' @
               template (blockReason whole)))"
      using Gemini assms(1,3,5) acc by (simp add: runAttempt_def streamGemini_def Let_def)
    then show ?thesis using gemini_aggregated_block_error_blocking by simp
  next
    case False
    then have "finishReason whole = Some ''SAFETY''"
      using Gemini assms(6) by (simp add: blockSignal_def)
    then have "runAttempt cfg tools s a =
        Inl (newError ''Gemini Content generation blocked. Aggregated Finish Reason: SAFETY'')"
      using Gemini assms(1,3,4,5) acc False
      by (simp add: runAttempt_def streamGemini_def Let_def)
    then show ?thesis using fixed_errors_classified(1) by simp
  qed
qed

lemma stream_attempt_unblocked:
  assumes "map partText cs = map Some ts" and "map textMethod cs = map Inr ts"
    and "generateContentStream s (modelInstance (provider cfg) tools)
           (requestTools (provider cfg) tools) a =
         Inr (StreamResult cs None (Inr agg))"
    and "(case agg of None \<Rightarrow> None | Some r \<Rightarrow> blockReason r) = blockReason whole"
    and "(case agg of None \<Rightarrow> None | Some r \<Rightarrow> finishReason r) = finishReason whole"
    and "concat ts = [] \<longrightarrow>
           (\<forall>r u. agg = Some r \<and> (partText r = Some u \<or> textMethod r = Inr u) \<longrightarrow> u = [])"
    and "useStreaming cfg" and "\<not> blockSignal (provider cfg) whole"
  shows "runAttempt cfg tools s a =
           (if concat ts = []
            then Inl (newError (''Received empty or non-text response from '' @
                        providerName (provider cfg) @ '' AI stream.''))
            else Inr (concat ts))"
proof (cases "provider cfg")
  case Vertex
  have acc: "accumulateVertex [] cs = concat ts"
    using accumulateVertex_deltas [OF assms(1), of "[]"] by simp
  have fin: "finishStream Vertex (concat ts) agg =
      (if concat ts = []
       then Inl (newError (''Received empty or non-text response from '' @
                   providerName Vertex @ '' AI stream.''))
       else Inr (concat ts))"
    using assms(6) by (auto simp: finishStream_def Let_def split: option.splits)
  show ?thesis
    using Vertex assms(3,4,7,8) acc fin
    by (simp add: runAttempt_def streamVertex_def blockSignal_def Let_def)
next
  case Gemini
  have acc: "accumulateGemini [] cs = Inr (concat ts)"
    using accumulateGemini_deltas [OF assms(2), of "[]"] by simp
  have fin: "finishStream Gemini (concat ts) agg =
      (if concat ts = []
       then Inl (newError (''Received empty or non-text response from '' @
                   providerName Gemini @ '' AI stream.''))
       else Inr (concat ts))"
    using assms(6) by (auto simp: finishStream_def Let_def split: option.splits sum.splits)
  show ?thesis
    using Gemini assms(3,4,5,7,8) acc fin
    by (simp add: runAttempt_def streamGemini_def blockSignal_def Let_def)
qed

lemma single_attempt_blocked:
  assumes "generateContent s (modelInstance (provider cfg) tools)
             (requestTools (provider cfg) tools) a = Inr whole"
    and "\<not> useStreaming cfg" and "blockSignal (provider cfg) whole"
  shows "\<exists>e. runAttempt cfg tools s a = Inl e \<and> isBlockingError (errorMessageString e)"
proof (cases "provider cfg")
  case Vertex
  then have "runAttempt cfg tools s a =
      Inl (newError (''Vertex Content generation blocked. Reason: '' @
             template (blockReason whole)))"
    using assms by (simp add: runAttempt_def nonStreamVertex_def blockSignal_def Let_def)
  then show ?thesis using vertex_block_error_blocking by simp
next
  case Gemini
  show ?thesis
  proof (cases "truthy (blockReason whole)")
    case True
    then have "runAttempt cfg tools s a =
        Inl (newError (''Gemini Content generation blocked. Response Reason: '' @
               template (blockReason whole)))"
      using Gemini assms(1,2) by (simp add: runAttempt_def nonStreamGemini_def Let_def)
    then show ?thesis using gemini_response_block_error_blocking by simp
  next
    case False
    then have "finishReason whole = Some ''SAFETY''"
      using Gemini assms(3) by (simp add: blockSignal_def)
    then have "runAttempt cfg tools s a =
        Inl (newError ''Gemini Content generation blocked. Response Finish Reason: SAFETY'')"
      using Gemini assms(1,2) False by (simp add: runAttempt_def nonStreamGemini_def Let_def)
    then show ?thesis using fixed_errors_classified(2) by simp
  qed
qed

lemma single_attempt_unblocked:
  assumes "partText whole = Some txt" and "textMethod whole = Inr txt"
    and "generateContent s (modelInstance (provider cfg) tools)
           (requestTools (provider cfg) tools) a = Inr whole"
    and "\<not> useStreaming cfg" and "\<not> blockSignal (provider cfg) whole"
  shows "runAttempt cfg tools s a =
           (if txt = []
            then Inl (newError (''Failed to extract valid text response from '' @
                        providerName (provider cfg) @ '' AI (non-streaming).''))
            else Inr txt)"
  using single_attempt_of_text [OF assms(1-4)] assms(5)
  by (cases "provider cfg") (simp_all add: blockSignal_def providerName_def)

lemma call_first_attempt_no_return:
  assumes "runAttempt cfg tools s 0 = Inl e" and "\<not> isRetryable (errorMessageString e)"
  shows "outcome (callGenerativeAI cfg tools s random) \<noteq> Inr t"
  using call_first_attempt_raises [OF assms, of random] by simp

text \<open>
  C6. The provider streams chunks that carry the text deltas \<open>ts\<close> (such as \<open>[a, b, c]\<close>)
  and, asked without streaming, answers with the one text \<open>concat ts\<close>. The aggregated
  response of the stream carries the same block and finish reason as that answer; its
  own text is arbitrary, it may have none and there may be no aggregated response at
  all, as long as it adds no text when the deltas are empty. Then the call in streaming
  mode returns a text exactly when the call in non-streaming mode returns it, that text
  is the concatenation of the deltas in order, and when the concatenation is non-empty
  and the answer carries no block signal both modes do return it.
\<close>

theorem streaming_matches_non_streaming:
  assumes "map partText cs = map Some ts" and "map textMethod cs = map Inr ts"
    and "partText whole = Some (concat ts)" and "textMethod whole = Inr (concat ts)"
    and "generateContentStream s (modelInstance (provider cfg) tools)
           (requestTools (provider cfg) tools) 0 =
         Inr (StreamResult cs None (Inr agg))"
    and "generateContent s (modelInstance (provider cfg) tools)
           (requestTools (provider cfg) tools) 0 = Inr whole"
    and "(case agg of None \<Rightarrow> None | Some r \<Rightarrow> blockReason r) = blockReason whole"
    and "(case agg of None \<Rightarrow> None | Some r \<Rightarrow> finishReason r) = finishReason whole"
    and "concat ts = [] \<longrightarrow>
           (\<forall>r u. agg = Some r \<and> (partText r = Some u \<or> textMethod r = Inr u) \<longrightarrow> u = [])"
  shows "(outcome (callGenerativeAI (cfg\<lparr>useStreaming := True\<rparr>) tools s random) = Inr t \<longleftrightarrow>
          outcome (callGenerativeAI (cfg\<lparr>useStreaming := False\<rparr>) tools s random) = Inr t) \<and>
         (outcome (callGenerativeAI (cfg\<lparr>useStreaming := True\<rparr>) tools s random) = Inr t \<longrightarrow>
          t = concat ts) \<and>
         (concat ts \<noteq> [] \<and> blockReason whole = None \<and> finishReason whole = None \<longrightarrow>
          outcome (callGenerativeAI (cfg\<lparr>useStreaming := True\<rparr>) tools s random) =
            Inr (concat ts) \<and>
          outcome (callGenerativeAI (cfg\<lparr>useStreaming := False\<rparr>) tools s random) =
            Inr (concat ts))"
proof -
  let ?S = "cfg\<lparr>useStreaming := True\<rparr>" and ?N = "cfg\<lparr>useStreaming := False\<rparr>"
  have gs: "generateContentStream s (modelInstance (provider ?S) tools)
      (requestTools (provider ?S) tools) 0 = Inr (StreamResult cs None (Inr agg))"
    using assms(5) by simp
  have gn: "generateContent s (modelInstance (provider ?N) tools)
      (requestTools (provider ?N) tools) 0 = Inr whole"
    using assms(6) by simp
  have us: "useStreaming ?S" and un: "\<not> useStreaming ?N" by simp_all
  have free: "\<not> blockSignal (provider cfg) whole"
    if "blockReason whole = None \<and> finishReason whole = None"
    using that by (cases "provider cfg") (simp_all add: blockSignal_def vertexBlocked_def truthy_def)
  have both: "outcome (callGenerativeAI ?S tools s random) = Inr t \<longleftrightarrow>
        \<not> blockSignal (provider cfg) whole \<and> concat ts \<noteq> [] \<and> t = concat ts"
      "outcome (callGenerativeAI ?N tools s random) = Inr t \<longleftrightarrow>
        \<not> blockSignal (provider cfg) whole \<and> concat ts \<noteq> [] \<and> t = concat ts" for t
  proof -
    consider (blocked) "blockSignal (provider cfg) whole"
      | (empty) "\<not> blockSignal (provider cfg) whole" "concat ts = []"
      | (ok) "\<not> blockSignal (provider cfg) whole" "concat ts \<noteq> []"
      by blast
    then have "(outcome (callGenerativeAI ?S tools s random) = Inr t \<longleftrightarrow>
        \<not> blockSignal (provider cfg) whole \<and> concat ts \<noteq> [] \<and> t = concat ts) \<and>
      (outcome (callGenerativeAI ?N tools s random) = Inr t \<longleftrightarrow>
        \<not> blockSignal (provider cfg) whole \<and> concat ts \<noteq> [] \<and> t = concat ts)"
    proof cases
      case blocked
      then have b: "blockSignal (provider ?S) whole" "blockSignal (provider ?N) whole"
        by simp_all
      obtain e where e: "runAttempt ?S tools s 0 = Inl e" "isBlockingError (errorMessageString e)"
        using stream_attempt_blocked [OF gs assms(2,7,8) us b(1)] by blast
      obtain f where f: "runAttempt ?N tools s 0 = Inl f" "isBlockingError (errorMessageString f)"
        using single_attempt_blocked [OF gn un b(2)] by blast
      have "\<not> isRetryable (errorMessageString e)" "\<not> isRetryable (errorMessageString f)"
        using e(2) f(2) by (simp_all add: isRetryable_def)
      then have "outcome (callGenerativeAI ?S tools s random) \<noteq> Inr t"
        and "outcome (callGenerativeAI ?N tools s random) \<noteq> Inr t"
        using call_first_attempt_no_return [OF e(1)] call_first_attempt_no_return [OF f(1)]
        by blast+
      then show ?thesis using blocked by simp
    next
      case empty
      then have nb: "\<not> blockSignal (provider ?S) whole" "\<not> blockSignal (provider ?N) whole"
        by simp_all
      have "runAttempt ?S tools s 0 =
          Inl (newError (''Received empty or non-text response from '' @
                 providerName (provider ?S) @ '' AI stream.''))"
        using stream_attempt_unblocked [OF assms(1,2) gs assms(7,8,9) us nb(1)] empty(2) by simp
      then have "outcome (callGenerativeAI ?S tools s random) \<noteq> Inr t"
        by (rule call_first_attempt_no_return) (rule empty_errors_not_retryable)
      moreover have "runAttempt ?N tools s 0 =
          Inl (newError (''Failed to extract valid text response from '' @
                 providerName (provider ?N) @ '' AI (non-streaming).''))"
        using single_attempt_unblocked [OF assms(3,4) gn un nb(2)] empty(2) by simp
      then have "outcome (callGenerativeAI ?N tools s random) \<noteq> Inr t"
        by (rule call_first_attempt_no_return) (rule empty_errors_not_retryable)
      ultimately show ?thesis using empty by simp
    next
      case ok
      then have nb: "\<not> blockSignal (provider ?S) whole" "\<not> blockSignal (provider ?N) whole"
        by simp_all
      have "runAttempt ?S tools s 0 = Inr (concat ts)"
        using stream_attempt_unblocked [OF assms(1,2) gs assms(7,8,9) us nb(1)] ok(2) by simp
      then have "outcome (callGenerativeAI ?S tools s random) = Inr (concat ts)"
        by (simp add: call_first_attempt_returns)
      moreover have "runAttempt ?N tools s 0 = Inr (concat ts)"
        using single_attempt_unblocked [OF assms(3,4) gn un nb(2)] ok(2) by simp
      then have "outcome (callGenerativeAI ?N tools s random) = Inr (concat ts)"
        by (simp add: call_first_attempt_returns)
      ultimately show ?thesis using ok by auto
    qed
    then show "outcome (callGenerativeAI ?S tools s random) = Inr t \<longleftrightarrow>
        \<not> blockSignal (provider cfg) whole \<and> concat ts \<noteq> [] \<and> t = concat ts"
      and "outcome (callGenerativeAI ?N tools s random) = Inr t \<longleftrightarrow>
        \<not> blockSignal (provider cfg) whole \<and> concat ts \<noteq> [] \<and> t = concat ts"
      by blast+
  qed
  show ?thesis using both free by blast
qed

text \<open>
  The witness: three deltas, an aggregated response without any text (and, for the other
  provider, no aggregated response at all), so the text returned in streaming mode can
  only come from the accumulation of the chunks.
\<close>

theorem streaming_matches_non_streaming_witness:
  "outcome (callGenerativeAI (exampleConfig Gemini False\<lparr>useStreaming := True\<rparr>) None
      (answeringSdk (map textResponse [''Hel'', ''lo '', ''world''])
         (Some (Response None (Inl (newError ''no text'')) None None))
         (textResponse ''Hello world''))
      (\<lambda>n. 0)) = Inr ''Hello world'' \<and>
   outcome (callGenerativeAI (exampleConfig Gemini False\<lparr>useStreaming := False\<rparr>) None
      (answeringSdk (map textResponse [''Hel'', ''lo '', ''world''])
         (Some (Response None (Inl (newError ''no text'')) None None))
         (textResponse ''Hello world''))
      (\<lambda>n. 0)) = Inr ''Hello world'' \<and>
   outcome (callGenerativeAI (exampleConfig Vertex False\<lparr>useStreaming := True\<rparr>) None
      (answeringSdk (map textResponse [''Hel'', ''lo '', ''world'']) None
         (textResponse ''Hello world''))
      (\<lambda>n. 0)) = Inr ''Hello world'' \<and>
   outcome (callGenerativeAI (exampleConfig Vertex False\<lparr>useStreaming := False\<rparr>) None
      (answeringSdk (map textResponse [''Hel'', ''lo '', ''world'']) None
         (textResponse ''Hello world''))
      (\<lambda>n. 0)) = Inr ''Hello world''"
proof -
  let ?g = "exampleConfig Gemini False" and ?v = "exampleConfig Vertex False"
  let ?ts = "[''Hel'', ''lo '', ''world'']"
  let ?cs = "map textResponse ?ts"
  let ?w = "textResponse ''Hello world''"
  let ?agg = "Some (Response None (Inl (newError ''no text'')) None None)"
  have c: "concat ?ts = ''Hello world''" by simp
  have 1: "map partText ?cs = map Some ?ts" by (simp add: textResponse_def)
  have 2: "map textMethod ?cs = map Inr ?ts" by (simp add: textResponse_def)
  have 3: "partText ?w = Some (concat ?ts)" by (simp add: textResponse_def)
  have 4: "textMethod ?w = Inr (concat ?ts)" by (simp add: textResponse_def)
  have 5: "generateContentStream (answeringSdk ?cs a ?w) m tl 0 =
      Inr (StreamResult ?cs None (Inr a))" for a m tl
    by (simp add: answeringSdk_def)
  have 6: "generateContent (answeringSdk ?cs a ?w) m tl 0 = Inr ?w" for a m tl
    by (simp add: answeringSdk_def)
  have 7: "(case ?agg of None \<Rightarrow> None | Some r \<Rightarrow> blockReason r) = blockReason ?w"
    "(case ?agg of None \<Rightarrow> None | Some r \<Rightarrow> finishReason r) = finishReason ?w"
    "(case (None :: response option) of None \<Rightarrow> None | Some r \<Rightarrow> blockReason r) =
       blockReason ?w"
    "(case (None :: response option) of None \<Rightarrow> None | Some r \<Rightarrow> finishReason r) =
       finishReason ?w"
    by (simp_all add: textResponse_def)
  have 8: "concat ?ts = [] \<longrightarrow>
      (\<forall>r u. a = Some r \<and> (partText r = Some u \<or> textMethod r = Inr u) \<longrightarrow> u = [])" for a
    by simp
  have 9: "concat ?ts \<noteq> [] \<and> blockReason ?w = None \<and> finishReason ?w = None"
    by (simp add: textResponse_def)
  have g: "outcome (callGenerativeAI (?g\<lparr>useStreaming := True\<rparr>) None
        (answeringSdk ?cs ?agg ?w) (\<lambda>n. 0)) = Inr (concat ?ts) \<and>
      outcome (callGenerativeAI (?g\<lparr>useStreaming := False\<rparr>) None
        (answeringSdk ?cs ?agg ?w) (\<lambda>n. 0)) = Inr (concat ?ts)"
    using streaming_matches_non_streaming [OF 1 2 3 4 5 6 7(1) 7(2) 8, of ?g None "\<lambda>n. 0"] 9
    by blast
  have v: "outcome (callGenerativeAI (?v\<lparr>useStreaming := True\<rparr>) None
        (answeringSdk ?cs None ?w) (\<lambda>n. 0)) = Inr (concat ?ts) \<and>
      outcome (callGenerativeAI (?v\<lparr>useStreaming := False\<rparr>) None
        (answeringSdk ?cs None ?w) (\<lambda>n. 0)) = Inr (concat ?ts)"
    using streaming_matches_non_streaming [OF 1 2 3 4 5 6 7(3) 7(4) 8, of ?v None "\<lambda>n. 0"] 9
    by blast
  show ?thesis using g v unfolding c by blast
qed

section \<open>Theorems on block reasons\<close>

lemma reasonGroup_plain:
  assumes "\<forall>c\<in>set b. \<not> isWhiteSpace c"
  shows "reasonGroup (CHR '' '' # b) = b"
proof -
  have "dropWhile isWhiteSpace b = b"
    using assms by (cases b) simp_all
  moreover have "\<forall>c\<in>set b. notLineTerminator c"
    using assms by (auto simp: isWhiteSpace_def notLineTerminator_def)
  then have "takeWhile notLineTerminator b = b"
    by (simp add: takeWhile_eq_all_conv)
  ultimately show ?thesis by (simp add: reasonGroup_def isWhiteSpace_def)
qed

lemma startsWithCI_step:
  "toLowerCaseChar c \<noteq> w \<Longrightarrow> startsWithCI (c # cs) (w # ws) = False"
  "toLowerCaseChar c = w \<Longrightarrow> startsWithCI (c # cs) (w # ws) = startsWithCI cs ws"
  by simp_all

lemma matchReason_vertex_block:
  "matchReason (''Vertex Content generation blocked. Reason: '' @ b) =
     Some (reasonGroup (CHR '' '' # b))"
  by (simp add: toLowerCaseChar_def startsWithCI_step del: startsWithCI.simps(3))

lemma blockedMessage_vertex_block:
  assumes "b \<noteq> []" and "\<forall>c\<in>set b. \<not> isWhiteSpace c"
  shows "blockedMessage p (newError (''Vertex Content generation blocked. Reason: '' @ b)) =
           ''Content generation blocked by '' @ providerName p @ '' safety filters. Reason: '' @ b"
proof -
  have "message (newError (''Vertex Content generation blocked. Reason: '' @ b)) =
      Some (''Vertex Content generation blocked. Reason: '' @ b)"
    by (simp add: newError_def)
  then show ?thesis
    using assms reasonGroup_plain [OF assms(2)]
    by (simp only: blockedMessage_def Let_def matchReason_vertex_block option.simps
        truthy_def template_def) simp
qed

lemma vertex_older_block_error_blocking:
  "isBlockingError_vertex (errorMessageString_vertex
     (newError (''Content generation blocked. Reason: '' @ b)))"
proof -
  have "includes_str (toLowerCase ''Content generation blocked. Reason: '')
      ''content generation blocked''"
    by code_simp
  then have "includes_str (toLowerCase ''Content generation blocked. Reason: '' @ toLowerCase b)
      ''content generation blocked''"
    by (rule includes_str_append)
  moreover have "errorMessageString_vertex
      (newError (''Content generation blocked. Reason: '' @ b)) =
      toLowerCase ''Content generation blocked. Reason: '' @ toLowerCase b"
    by (simp add: errorMessageString_vertex_def newError_def orElse_def toLowerCase_def)
  ultimately show ?thesis by (simp add: isBlockingError_vertex_def)
qed

lemma vertex_older_extract_error_not_blocking:
  "\<not> isBlockingError_vertex (errorMessageString_vertex
     (newError ''Failed to extract valid text response from Vertex AI (non-streaming).''))"
  by code_simp

lemma vertexBlocked_iff:
  "vertexBlocked r \<longleftrightarrow>
     (\<exists>b. r = Some b \<and> b \<noteq> [] \<and> b \<noteq> ''BLOCK_REASON_UNSPECIFIED'' \<and> b \<noteq> ''OTHER'')"
  by (cases r) (auto simp: vertexBlocked_def truthy_def)

lemma truthy_iff: "truthy r \<longleftrightarrow> (\<exists>b. r = Some b \<and> b \<noteq> [])"
  by (cases r) (auto simp: truthy_def)

lemma single_attempt_blocked_iff:
  assumes "generateContent s (modelInstance (provider cfg) tools)
             (requestTools (provider cfg) tools) a = Inr r"
    and "\<not> useStreaming cfg"
  shows "(\<exists>e. runAttempt cfg tools s a = Inl e \<and> isBlockingError (errorMessageString e)) \<longleftrightarrow>
           blockSignal (provider cfg) r"
proof (cases "blockSignal (provider cfg) r")
  case True
  then show ?thesis using single_attempt_blocked [OF assms True] by simp
next
  case False
  have "runAttempt cfg tools s a = extractText (provider cfg) 
          (if provider cfg = Vertex then partText r
           else (case textMethod r of Inr t \<Rightarrow> Some t | Inl e \<Rightarrow> None))"
    using assms False
    by (cases "provider cfg")
       (simp_all add: runAttempt_def nonStreamVertex_def nonStreamGemini_def blockSignal_def
          Let_def)
  then have "\<not> (\<exists>e. runAttempt cfg tools s a = Inl e \<and> isBlockingError (errorMessageString e))"
    using fixed_errors_classified(5,6)
    by (cases "provider cfg")
       (auto simp: extractText_def providerName_def split: option.splits if_splits)
  then show ?thesis using False by simp
qed

lemma older_single_attempt:
  assumes "generateContent s (generativeModel tools) tools a = Inr r"
  shows "runAttempt_vertex False tools s a =
           (if vertexBlocked (blockReason r)
            then Inl (newError (''Content generation blocked. Reason: '' @
                        template (blockReason r)))
            else (case partText r of
                    None \<Rightarrow> Inl (newError
                      ''Failed to extract valid text response from Vertex AI (non-streaming).'')
                  | Some t \<Rightarrow>
                      if t = []
                      then Inl (newError
                        ''Failed to extract valid text response from Vertex AI (non-streaming).'')
                      else Inr t))"
  using assms by (simp add: runAttempt_vertex_def)

lemma older_single_attempt_blocked_iff:
  assumes "generateContent s (generativeModel tools) tools a = Inr r"
  shows "(\<exists>e. runAttempt_vertex False tools s a = Inl e \<and>
              isBlockingError_vertex (errorMessageString_vertex e)) \<longleftrightarrow>
           vertexBlocked (blockReason r)"
proof (cases "vertexBlocked (blockReason r)")
  case True
  then show ?thesis
    using older_single_attempt [OF assms] vertex_older_block_error_blocking by simp
next
  case False
  then show ?thesis
    using older_single_attempt [OF assms] vertex_older_extract_error_not_blocking
    by (auto split: option.splits if_splits)
qed

text \<open>
  C5 as stated fails on the "gemini" provider: its branch raises for any block reason,
  the two "no block" values included. A non-streaming response with text and the block
  reason OTHER (or BLOCK_REASON_UNSPECIFIED) makes the call raise the blocked-content
  error.
\<close>

theorem gemini_no_block_values_counterexample:
  "runAttempt (exampleConfig Gemini False) None
      (flakySdk 0 [] [] (Response (Some ''hi'') (Inr ''hi'') (Some ''OTHER'') None)) 0 =
     Inl (newError ''Gemini Content generation blocked. Response Reason: OTHER'') \<and>
   isBlockingError (errorMessageString
      (newError ''Gemini Content generation blocked. Response Reason: OTHER'')) \<and>
   callGenerativeAI (exampleConfig Gemini False) None
      (flakySdk 0 [] [] (Response (Some ''hi'') (Inr ''hi'') (Some ''OTHER'') None)) (\<lambda>n. 0) =
     \<lparr>outcome = Inl (McpError InternalError
        ''Content generation blocked by gemini safety filters. Reason: OTHER''),
      sleeps = [], attempts = 1\<rparr> \<and>
   callGenerativeAI (exampleConfig Gemini False) None
      (flakySdk 0 [] []
         (Response (Some ''hi'') (Inr ''hi'') (Some ''BLOCK_REASON_UNSPECIFIED'') None))
      (\<lambda>n. 0) =
     \<lparr>outcome = Inl (McpError InternalError
        ''Content generation blocked by gemini safety filters. Reason: BLOCK_REASON_UNSPECIFIED''),
      sleeps = [], attempts = 1\<rparr>"
proof -
  have "runAttempt (exampleConfig Gemini False) None
      (flakySdk 0 [] [] (Response (Some ''hi'') (Inr ''hi'') (Some ''OTHER'') None)) 0 =
     Inl (newError ''Gemini Content generation blocked. Response Reason: OTHER'')"
    by code_simp
  moreover have "isBlockingError (errorMessageString
      (newError ''Gemini Content generation blocked. Response Reason: OTHER''))"
    by code_simp
  moreover have "callGenerativeAI (exampleConfig Gemini False) None
      (flakySdk 0 [] [] (Response (Some ''hi'') (Inr ''hi'') (Some ''OTHER'') None)) (\<lambda>n. 0) =
     \<lparr>outcome = Inl (McpError InternalError
        ''Content generation blocked by gemini safety filters. Reason: OTHER''),
      sleeps = [], attempts = 1\<rparr>"
    by code_simp
  moreover have "callGenerativeAI (exampleConfig Gemini False) None
      (flakySdk 0 [] []
         (Response (Some ''hi'') (Inr ''hi'') (Some ''BLOCK_REASON_UNSPECIFIED'') None))
      (\<lambda>n. 0) =
     \<lparr>outcome = Inl (McpError InternalError
        ''Content generation blocked by gemini safety filters. Reason: BLOCK_REASON_UNSPECIFIED''),
      sleeps = [], attempts = 1\<rparr>"
    by code_simp
  ultimately show ?thesis by blast
qed

text \<open>
  C5, amended. For a non-streaming response \<open>r\<close>:
  on the "vertex" provider, and in the older client, the attempt raises a content-blocked
  error if and only if the block reason of \<open>r\<close> is present, non-empty and neither
  BLOCK_REASON_UNSPECIFIED nor OTHER, and the error message ends with that reason;
  on the "gemini" provider the attempt raises a content-blocked error if and only if
  the block reason is present and non-empty (whatever its value) or the finish reason is
  SAFETY. On "vertex", when the first response is blocked with a reason free of white
  space, the call raises "Content generation blocked by vertex safety filters. Reason:
  <reason>" after one attempt and no sleep.
\<close>

theorem block_reason_raises_content_blocked:
  "(\<not> useStreaming cfg \<and>
    generateContent s (modelInstance (provider cfg) tools)
        (requestTools (provider cfg) tools) a = Inr r \<longrightarrow>
      (provider cfg = Vertex \<longrightarrow>
         ((\<exists>e. runAttempt cfg tools s a = Inl e \<and> isBlockingError (errorMessageString e)) \<longleftrightarrow>
          (\<exists>b. blockReason r = Some b \<and> b \<noteq> [] \<and> b \<noteq> ''BLOCK_REASON_UNSPECIFIED'' \<and>
               b \<noteq> ''OTHER'')) \<and>
         (\<forall>b. blockReason r = Some b \<and> b \<noteq> [] \<and> b \<noteq> ''BLOCK_REASON_UNSPECIFIED'' \<and>
              b \<noteq> ''OTHER'' \<longrightarrow>
              runAttempt cfg tools s a =
                Inl (newError (''Vertex Content generation blocked. Reason: '' @ b)) \<and>
              (a = 0 \<and> (\<forall>c\<in>set b. \<not> isWhiteSpace c) \<longrightarrow>
                 callGenerativeAI cfg tools s random =
                   \<lparr>outcome = Inl (McpError InternalError
                      (''Content generation blocked by vertex safety filters. Reason: '' @ b)),
                    sleeps = [], attempts = 1\<rparr>))) \<and>
      (provider cfg = Gemini \<longrightarrow>
         ((\<exists>e. runAttempt cfg tools s a = Inl e \<and> isBlockingError (errorMessageString e)) \<longleftrightarrow>
          ((\<exists>b. blockReason r = Some b \<and> b \<noteq> []) \<or> finishReason r = Some ''SAFETY'')) \<and>
         (\<forall>b. blockReason r = Some b \<and> b \<noteq> [] \<longrightarrow>
              runAttempt cfg tools s a =
                Inl (newError (''Gemini Content generation blocked. Response Reason: '' @ b))))) \<and>
   (generateContent s (generativeModel tools) tools a = Inr r \<longrightarrow>
      ((\<exists>e. runAttempt_vertex False tools s a = Inl e \<and>
            isBlockingError_vertex (errorMessageString_vertex e)) \<longleftrightarrow>
       (\<exists>b. blockReason r = Some b \<and> b \<noteq> [] \<and> b \<noteq> ''BLOCK_REASON_UNSPECIFIED'' \<and>
            b \<noteq> ''OTHER'')) \<and>
      (\<forall>b. blockReason r = Some b \<and> b \<noteq> [] \<and> b \<noteq> ''BLOCK_REASON_UNSPECIFIED'' \<and>
           b \<noteq> ''OTHER'' \<longrightarrow>
           runAttempt_vertex False tools s a =
             Inl (newError (''Content generation blocked. Reason: '' @ b))))"
proof (intro conjI impI allI)
  assume h: "\<not> useStreaming cfg \<and>
    generateContent s (modelInstance (provider cfg) tools)
        (requestTools (provider cfg) tools) a = Inr r"
    and v: "provider cfg = Vertex"
  show "(\<exists>e. runAttempt cfg tools s a = Inl e \<and> isBlockingError (errorMessageString e)) \<longleftrightarrow>
      (\<exists>b. blockReason r = Some b \<and> b \<noteq> [] \<and> b \<noteq> ''BLOCK_REASON_UNSPECIFIED'' \<and>
           b \<noteq> ''OTHER'')"
    using single_attempt_blocked_iff [of s cfg tools a r] h v
    by (simp add: blockSignal_def vertexBlocked_iff)
next
  fix b
  assume h: "\<not> useStreaming cfg \<and>
    generateContent s (modelInstance (provider cfg) tools)
        (requestTools (provider cfg) tools) a = Inr r"
    and v: "provider cfg = Vertex"
    and b: "blockReason r = Some b \<and> b \<noteq> [] \<and> b \<noteq> ''BLOCK_REASON_UNSPECIFIED'' \<and>
      b \<noteq> ''OTHER''"
  show r: "runAttempt cfg tools s a =
      Inl (newError (''Vertex Content generation blocked. Reason: '' @ b))"
    using h v b
    by (simp add: runAttempt_def nonStreamVertex_def vertexBlocked_def truthy_def
        template_def Let_def)
  assume z: "a = 0 \<and> (\<forall>c\<in>set b. \<not> isWhiteSpace c)"
  let ?e = "newError (''Vertex Content generation blocked. Reason: '' @ b)"
  have blk: "isBlockingError (errorMessageString ?e)"
    by (rule vertex_block_error_blocking)
  then have "\<not> isRetryable (errorMessageString ?e)"
    by (simp add: isRetryable_def)
  then have "callGenerativeAI cfg tools s random =
      \<lparr>outcome = Inl (McpError InternalError (finalErrorMessage (provider cfg) ?e)),
       sleeps = [], attempts = 1\<rparr>"
    using r z by (intro call_first_attempt_raises) simp_all
  moreover have "finalErrorMessage (provider cfg) ?e = blockedMessage Vertex ?e"
    using blk v by (simp add: finalErrorMessage_def)
  moreover have "blockedMessage Vertex ?e =
      ''Content generation blocked by vertex safety filters. Reason: '' @ b"
    using blockedMessage_vertex_block [of b Vertex] b z by (simp add: providerName_def)
  ultimately show "callGenerativeAI cfg tools s random =
      \<lparr>outcome = Inl (McpError InternalError
         (''Content generation blocked by vertex safety filters. Reason: '' @ b)),
       sleeps = [], attempts = 1\<rparr>"
    by simp
next
  assume h: "\<not> useStreaming cfg \<and>
    generateContent s (modelInstance (provider cfg) tools)
        (requestTools (provider cfg) tools) a = Inr r"
    and g: "provider cfg = Gemini"
  show "(\<exists>e. runAttempt cfg tools s a = Inl e \<and> isBlockingError (errorMessageString e)) \<longleftrightarrow>
      ((\<exists>b. blockReason r = Some b \<and> b \<noteq> []) \<or> finishReason r = Some ''SAFETY'')"
    using single_attempt_blocked_iff [of s cfg tools a r] h g
    by (simp add: blockSignal_def truthy_iff)
next
  fix b
  assume h: "\<not> useStreaming cfg \<and>
    generateContent s (modelInstance (provider cfg) tools)
        (requestTools (provider cfg) tools) a = Inr r"
    and g: "provider cfg = Gemini"
    and b: "blockReason r = Some b \<and> b \<noteq> []"
  show "runAttempt cfg tools s a =
      Inl (newError (''Gemini Content generation blocked. Response Reason: '' @ b))"
    using h g b
    by (simp add: runAttempt_def nonStreamGemini_def truthy_def template_def Let_def)
next
  assume h: "generateContent s (generativeModel tools) tools a = Inr r"
  show "(\<exists>e. runAttempt_vertex False tools s a = Inl e \<and>
          isBlockingError_vertex (errorMessageString_vertex e)) \<longleftrightarrow>
      (\<exists>b. blockReason r = Some b \<and> b \<noteq> [] \<and> b \<noteq> ''BLOCK_REASON_UNSPECIFIED'' \<and>
           b \<noteq> ''OTHER'')"
    using older_single_attempt_blocked_iff [OF h] by (simp add: vertexBlocked_iff)
next
  fix b
  assume h: "generateContent s (generativeModel tools) tools a = Inr r"
    and b: "blockReason r = Some b \<and> b \<noteq> [] \<and> b \<noteq> ''BLOCK_REASON_UNSPECIFIED'' \<and>
      b \<noteq> ''OTHER''"
  show "runAttempt_vertex False tools s a =
      Inl (newError (''Content generation blocked. Reason: '' @ b))"
    using older_single_attempt [OF h] b
    by (simp add: vertexBlocked_def truthy_def template_def)
qed

theorem block_reason_raises_content_blocked_witness:
  "callGenerativeAI (exampleConfig Vertex False) None
      (flakySdk 0 [] [] (Response (Some ''hi'') (Inr ''hi'') (Some ''SAFETY'') None)) (\<lambda>n. 0) =
     \<lparr>outcome = Inl (McpError InternalError
        ''Content generation blocked by vertex safety filters. Reason: SAFETY''),
      sleeps = [], attempts = 1\<rparr> \<and>
   runAttempt (exampleConfig Vertex False) None
      (flakySdk 0 [] [] (Response (Some ''hi'') (Inr ''hi'') (Some ''OTHER'') None)) 0 =
     Inr ''hi'' \<and>
   \<not> (\<exists>e. runAttempt (exampleConfig Vertex False) None
          (flakySdk 0 [] [] (Response (Some ''hi'') (Inr ''hi'') (Some ''OTHER'') None)) 0 = Inl e \<and>
        isBlockingError (errorMessageString e)) \<and>
   runAttempt (exampleConfig Gemini False) None
      (flakySdk 0 [] [] (Response (Some ''hi'') (Inr ''hi'') (Some ''OTHER'') None)) 0 =
     Inl (newError ''Gemini Content generation blocked. Response Reason: OTHER'') \<and>
   runAttempt_vertex False None
      (flakySdk 0 [] [] (Response (Some ''hi'') (Inr ''hi'') (Some ''SAFETY'') None)) 0 =
     Inl (newError ''Content generation blocked. Reason: SAFETY'')"
proof -
  let ?v = "exampleConfig Vertex False" and ?g = "exampleConfig Gemini False"
  let ?rs = "Response (Some ''hi'') (Inr ''hi'') (Some ''SAFETY'') None"
  let ?ro = "Response (Some ''hi'') (Inr ''hi'') (Some ''OTHER'') None"
  have cfg: "\<not> useStreaming ?v" "provider ?v = Vertex" "\<not> useStreaming ?g" "provider ?g = Gemini"
    by (simp_all add: exampleConfig_def)
  have gen: "generateContent (flakySdk 0 [] [] r) m tl 0 = Inr r" for r m tl
    by (simp add: flakySdk_def)
  have safety: "blockReason ?rs = Some ''SAFETY'' \<and> ''SAFETY'' \<noteq> [] \<and>
      ''SAFETY'' \<noteq> ''BLOCK_REASON_UNSPECIFIED'' \<and> ''SAFETY'' \<noteq> ''OTHER''"
    by simp
  have plain: "(0::nat) = 0 \<and> (\<forall>c\<in>set ''SAFETY''. \<not> isWhiteSpace c)"
    by (simp add: isWhiteSpace_def)
  have other: "blockReason ?ro = Some ''OTHER'' \<and> ''OTHER'' \<noteq> []" by simp
  have exempt: "\<not> (\<exists>b. blockReason ?ro = Some b \<and> b \<noteq> [] \<and>
      b \<noteq> ''BLOCK_REASON_UNSPECIFIED'' \<and> b \<noteq> ''OTHER'')"
    by simp
  have 1: "callGenerativeAI ?v None (flakySdk 0 [] [] ?rs) (\<lambda>n. 0) =
      \<lparr>outcome = Inl (McpError InternalError
         (''Content generation blocked by vertex safety filters. Reason: '' @ ''SAFETY'')),
       sleeps = [], attempts = 1\<rparr>"
    using block_reason_raises_content_blocked
      [where cfg = ?v and s = "flakySdk 0 [] [] ?rs" and tools = None and a = 0 and r = ?rs
         and random = "\<lambda>n. 0"]
      cfg(1,2) gen plain
    by simp
  have 2: "\<not> (\<exists>e. runAttempt ?v None (flakySdk 0 [] [] ?ro) 0 = Inl e \<and>
      isBlockingError (errorMessageString e))"
    using block_reason_raises_content_blocked
      [where cfg = ?v and s = "flakySdk 0 [] [] ?ro" and tools = None and a = 0 and r = ?ro]
      cfg(1,2) gen
    by simp
  have 3: "runAttempt ?g None (flakySdk 0 [] [] ?ro) 0 =
      Inl (newError (''Gemini Content generation blocked. Response Reason: '' @ ''OTHER''))"
    using block_reason_raises_content_blocked
      [where cfg = ?g and s = "flakySdk 0 [] [] ?ro" and tools = None and a = 0 and r = ?ro]
      cfg(3,4) gen
    by simp
  have 4: "runAttempt_vertex False None (flakySdk 0 [] [] ?rs) 0 =
      Inl (newError (''Content generation blocked. Reason: '' @ ''SAFETY''))"
    using block_reason_raises_content_blocked
      [where s = "flakySdk 0 [] [] ?rs" and tools = None and a = 0 and r = ?rs]
      gen
    by simp
  have 5: "runAttempt ?v None (flakySdk 0 [] [] ?ro) 0 = Inr ''hi''" by code_simp
  show ?thesis using 1 2 3 4 5 by simp
qed

section \<open>Theorems on the tools of a request\<close>

text \<open>
  What \<open>callGenerativeAI\<close> does for a tool list in which some tool carries
  \<open>googleSearchRetrieval\<close>: the preview entry point, and only those tools in the request
  when there are several.
\<close>

lemma googleSearchRetrieval_selects_preview:
  assumes "isGroundingRequested (Some ts)"
  shows "modelInstance Vertex (Some ts) = PreviewGenerativeModel"
    and "1 < length ts \<Longrightarrow> requestTools Vertex (Some ts) = Some (filter googleSearchRetrieval ts)"
    and "length ts \<le> 1 \<Longrightarrow> requestTools Vertex (Some ts) = Some ts"
  using assms by (simp_all add: modelInstance_def requestTools_def filteredToolsForVertex_def)

text \<open>
  C8. The tool list that \<open>getToolsForApi\<close> builds for a web search holds one tool with
  the property \<open>googleSearch\<close>. \<open>callGenerativeAI\<close> tests \<open>googleSearchRetrieval\<close>, so on
  the "vertex" provider it does not see the search request: grounding is not requested,
  the default entry point is used, and a function declaration next to the search tool
  stays in the request. The older client tests \<open>googleSearch\<close> and takes the preview
  entry point for the same list.
\<close>

theorem web_search_tool_is_not_detected:
  "getToolsForApi fc True =
     Some [\<lparr>googleSearchRetrieval = False, googleSearch = True, functionDeclarations = []\<rparr>] \<and>
   \<not> isGroundingRequested (getToolsForApi fc True) \<and>
   modelInstance Vertex (getToolsForApi fc True) = GenerativeModel \<and>
   generativeModel (getToolsForApi fc True) = PreviewGenerativeModel \<and>
   outcome (callGenerativeAI (exampleConfig Vertex False) (getToolsForApi fc True)
      entryPointSdk (\<lambda>n. 0)) = Inr ''default'' \<and>
   outcome (callVertexAIWithOptionalFunctionCalling (getToolsForApi fc True) False 3 1000
      entryPointSdk) = Inr ''preview'' \<and>
   requestTools Vertex
     (Some [\<lparr>googleSearchRetrieval = False, googleSearch = True, functionDeclarations = []\<rparr>,
            \<lparr>googleSearchRetrieval = False, googleSearch = False,
             functionDeclarations = [''lookup'']\<rparr>]) =
     Some [\<lparr>googleSearchRetrieval = False, googleSearch = True, functionDeclarations = []\<rparr>,
           \<lparr>googleSearchRetrieval = False, googleSearch = False,
            functionDeclarations = [''lookup'']\<rparr>]"
proof -
  let ?tools = "Some [\<lparr>googleSearchRetrieval = False, googleSearch = True,
    functionDeclarations = []\<rparr>]"
  have t: "getToolsForApi fc True = ?tools" by (simp add: getToolsForApi_def)
  have g: "\<not> isGroundingRequested ?tools" by (simp add: isGroundingRequested_def)
  have m: "modelInstance Vertex ?tools = GenerativeModel"
    by (simp add: modelInstance_def isGroundingRequested_def)
  have o: "generativeModel ?tools = PreviewGenerativeModel"
    by (simp add: generativeModel_def isGrounding_def)
  have c: "outcome (callGenerativeAI (exampleConfig Vertex False) ?tools entryPointSdk (\<lambda>n. 0)) =
      Inr ''default''"
    by code_simp
  have v: "outcome (callVertexAIWithOptionalFunctionCalling ?tools False 3 1000 entryPointSdk) =
      Inr ''preview''"
    by code_simp
  have r: "requestTools Vertex
     (Some [\<lparr>googleSearchRetrieval = False, googleSearch = True, functionDeclarations = []\<rparr>,
            \<lparr>googleSearchRetrieval = False, googleSearch = False,
             functionDeclarations = [''lookup'']\<rparr>]) =
     Some [\<lparr>googleSearchRetrieval = False, googleSearch = True, functionDeclarations = []\<rparr>,
           \<lparr>googleSearchRetrieval = False, googleSearch = False,
            functionDeclarations = [''lookup'']\<rparr>]"
    by (simp add: requestTools_def filteredToolsForVertex_def isGroundingRequested_def)
  show ?thesis unfolding t using g m o c v r by blast
qed

end
